theory Spec2Isabelle
  imports Main "HOL-Library.Product_Lexorder" "HOL-Library.Sublist"
begin

section \<open>Data model\<close>

text \<open>
  The program is \<^verbatim>\<open>src/nettside/web_visualization.py\<close>. A Python string is
  modelled as the \<open>string\<close> of its UTF-8 bytes. A pandas \<^verbatim>\<open>Timestamp\<close> of the \<^verbatim>\<open>Dato\<close> column
  is a calendar date (year, month, day); timestamps compare chronologically, which is
  the lexicographic order of the triple.
\<close>

type_synonym timestamp = "nat \<times> nat \<times> nat"

record row =
  Dato :: timestamp
  Nye_tilfeller :: int
  Kumulativt_antall :: int

type_synonym frame = "row list"

text \<open>The exceptions the modelled code can raise.\<close>

datatype error = FileNotFoundError | ValueError | IndexError | TypeError

text \<open>
  What \<^verbatim>\<open>pd.read_csv\<close> finds at a path: nothing, a file it parses into a frame
  whose \<^verbatim>\<open>Dato\<close> column holds timestamps, or a file it rejects.
\<close>

datatype csv_file = Table frame | Unparsable

text \<open>
  \<open>Table\<close> is a file whose date cells pandas all parses; a file with a header and no
  rows is \<open>Table []\<close>. \<open>Unparsable\<close> is a file \<^verbatim>\<open>pd.read_csv\<close> raises on (no
  \<^verbatim>\<open>Dato\<close> column, a row it cannot tokenize). A file with a date cell that pandas
  cannot parse is loaded with the column left as strings; such a file is neither, and the
  model does not cover it.

  The dtype of the \<^verbatim>\<open>Dato\<close> column: \<^verbatim>\<open>datetime64\<close> when the file has rows,
  \<^verbatim>\<open>object\<close> when it has none (there is no value to parse). Filtering keeps the dtype.
\<close>

datatype dtype = Datetime64 | Object

definition Dato_dtype :: "frame \<Rightarrow> dtype" where
  "Dato_dtype data = (if data = [] then Object else Datetime64)"

type_synonym filesystem = "string \<Rightarrow> csv_file option"

text \<open>
  The conversion pandas applies to a string that is compared with a \<^verbatim>\<open>datetime64\<close>
  column (\<^verbatim>\<open>data["Dato"] >= start\<close>) is a parameter of the model: \<open>None\<close> is a string
  pandas cannot read as a date, for which the comparison raises \<^verbatim>\<open>TypeError\<close>. On an
  \<^verbatim>\<open>object\<close> column without values the comparison converts nothing and raises nothing.
\<close>

type_synonym to_datetime = "string \<Rightarrow> timestamp option"

text \<open>
  After lines 64-74 the variables \<^verbatim>\<open>start\<close> and \<^verbatim>\<open>end\<close> hold either a string
  (the result of \<^verbatim>\<open>fix_dates\<close>) or a \<^verbatim>\<open>Timestamp\<close> (the result of \<^verbatim>\<open>iloc\<close>).
\<close>

datatype bound = Str string | Stamp timestamp

datatype mark = Bar | Line string

record chart =
  title :: string
  chart_data :: frame
  chart_mark :: mark
  encode_x :: string
  encode_y :: string
  encode_tooltip :: "string list"
  width :: "nat option"

record layer_chart =
  layer :: "chart list"
  layer_title :: string
  layer_width :: "nat option"
  resolve_scale_y :: "string option"

section \<open>Strings\<close>

definition digit :: "char \<Rightarrow> bool" where
  "digit c = (c \<in> set ''0123456789'')"

definition digit_char :: "nat \<Rightarrow> char" where
  "digit_char n = ''0123456789'' ! (n mod 10)"

text \<open>
  \<^verbatim>\<open>str.lower()\<close>, on the UTF-8 bytes of the string. The ASCII letters A-Z move to
  a-z. A code point from U+00C0 to U+00DE other than U+00D7 (the capital letters of
  Latin-1, the Norwegian ones among them) is the byte \<open>0xC3\<close> followed by a byte from
  \<open>0x80\<close> to \<open>0x9E\<close> other than \<open>0x97\<close>, and moves to the code point \<open>0x20\<close> above
  it. Every other byte stays. This is \<^verbatim>\<open>str.lower()\<close> on the strings of code points
  below U+0100, the strings that \<open>latin1\<close> accepts.
\<close>

definition lower_char :: "char \<Rightarrow> char" where
  "lower_char c =
     (case map_of (zip ''ABCDEFGHIJKLMNOPQRSTUVWXYZ'' ''abcdefghijklmnopqrstuvwxyz'') c of
        Some l \<Rightarrow> l
      | None \<Rightarrow> c)"

definition latin1_upper :: string where
  "latin1_upper = [
        CHR 0x80, CHR 0x81, CHR 0x82, CHR 0x83, CHR 0x84, CHR 0x85, CHR 0x86, CHR 0x87,
        CHR 0x88, CHR 0x89, CHR 0x8A, CHR 0x8B, CHR 0x8C, CHR 0x8D, CHR 0x8E, CHR 0x8F,
        CHR 0x90, CHR 0x91, CHR 0x92, CHR 0x93, CHR 0x94, CHR 0x95, CHR 0x96, CHR 0x98,
        CHR 0x99, CHR 0x9A, CHR 0x9B, CHR 0x9C, CHR 0x9D, CHR 0x9E]"

definition latin1_lower :: string where
  "latin1_lower = [
        CHR 0xA0, CHR 0xA1, CHR 0xA2, CHR 0xA3, CHR 0xA4, CHR 0xA5, CHR 0xA6, CHR 0xA7,
        CHR 0xA8, CHR 0xA9, CHR 0xAA, CHR 0xAB, CHR 0xAC, CHR 0xAD, CHR 0xAE, CHR 0xAF,
        CHR 0xB0, CHR 0xB1, CHR 0xB2, CHR 0xB3, CHR 0xB4, CHR 0xB5, CHR 0xB6, CHR 0xB8,
        CHR 0xB9, CHR 0xBA, CHR 0xBB, CHR 0xBC, CHR 0xBD, CHR 0xBE]"

definition lower_latin1 :: "char \<Rightarrow> char" where
  "lower_latin1 d =
     (case map_of (zip latin1_upper latin1_lower) d of
        Some l \<Rightarrow> l
      | None \<Rightarrow> d)"

fun lower :: "string \<Rightarrow> string" where
  "lower [] = []"
| "lower [c] = [lower_char c]"
| "lower (c # d # cs) =
     (if c = CHR 0xC3 then c # lower_latin1 d # lower cs else lower_char c # lower (d # cs))"




text \<open>\<^verbatim>\<open>s.split(sep)\<close> for a one-character separator: \<open>n\<close> separators give \<open>n + 1\<close> fields.\<close>

fun split :: "string \<Rightarrow> char \<Rightarrow> string list" where
  "split [] sep = [[]]"
| "split (c # cs) sep =
     (if c = sep then [] # split cs sep
      else (let fields = split cs sep in (c # hd fields) # tl fields))"

text \<open>
  \<^verbatim>\<open>str(t)\<close> for a \<^verbatim>\<open>Timestamp\<close> at midnight: \<^verbatim>\<open>YYYY-MM-DD 00:00:00\<close>. The years
  of a pandas timestamp lie between 1677 and 2262, so a year is printed with four digits.
\<close>

definition isoformat :: "timestamp \<Rightarrow> string" where
  "isoformat t =
     (case t of (y, m, d) \<Rightarrow>
        [digit_char (y div 1000), digit_char (y div 100), digit_char (y div 10), digit_char y]
        @ ''-'' @ [digit_char (m div 10), digit_char m]
        @ ''-'' @ [digit_char (d div 10), digit_char d])"

fun str :: "bound \<Rightarrow> string" where
  "str (Str s) = s"
| "str (Stamp t) = isoformat t @ '' 00:00:00''"

text \<open>
  The regular expression \<^verbatim>\<open>\d{4}-\d{2}-\d{2}\<close> of lines 76 and 117, with the
  digits 0-9 (the only decimal digits below U+0100):
  \<open>date_prefix s\<close> says that a match starts at the head of \<open>s\<close>, and
  \<open>findall_first s\<close> is \<^verbatim>\<open>re.findall(regs, s)[0]\<close>, the leftmost match, with
  \<^verbatim>\<open>IndexError\<close> when the list of matches is empty.
\<close>

fun date_prefix :: "string \<Rightarrow> bool" where
  "date_prefix (y1 # y2 # y3 # y4 # s1 # m1 # m2 # s2 # d1 # d2 # rest) =
     (digit y1 \<and> digit y2 \<and> digit y3 \<and> digit y4 \<and> s1 = CHR ''-'' \<and>
      digit m1 \<and> digit m2 \<and> s2 = CHR ''-'' \<and> digit d1 \<and> digit d2)"
| "date_prefix _ = False"

fun findall_first :: "string \<Rightarrow> error + string" where
  "findall_first [] = Inl IndexError"
| "findall_first (c # cs) =
     (if date_prefix (c # cs) then Inr (take 10 (c # cs)) else findall_first cs)"

section \<open>The functions of the program\<close>

text \<open>\<^verbatim>\<open>fix_dates\<close>, lines 19-31. \<^verbatim>\<open>date_array[2]\<close> raises when there are fewer than three fields.\<close>

definition fix_dates :: "string \<Rightarrow> error + string" where
  "fix_dates dmy_date =
     (if CHR ''-'' \<in> set dmy_date then Inr dmy_date
      else
        (let date_array = split dmy_date (CHR ''/'') in
         if length date_array < 3 then Inl IndexError
         else Inr (date_array ! 2 @ ''-'' @ date_array ! 1 @ ''-'' @ date_array ! 0)))"

text \<open>\<^verbatim>\<open>get_data\<close>, lines 34-46: the path of line 40, then \<^verbatim>\<open>pd.read_csv\<close>.\<close>

definition file_path :: "string \<Rightarrow> string" where
  "file_path county =
     ''data_files_updated'' @ ''/'' @ (''antall-meldte-covid-19-'' @ lower county @ ''.csv'')"

definition read_csv :: "filesystem \<Rightarrow> string \<Rightarrow> error + frame" where
  "read_csv fs file =
     (case fs file of
        None \<Rightarrow> Inl FileNotFoundError
      | Some Unparsable \<Rightarrow> Inl ValueError
      | Some (Table data) \<Rightarrow> Inr data)"

definition get_data :: "filesystem \<Rightarrow> string \<Rightarrow> error + frame" where
  "get_data fs county = read_csv fs (file_path county)"

text \<open>
  Lines 64-68 (and 106-110): \<^verbatim>\<open>data[data["Dato"] >= start]\<close> keeps the rows of the
  mask in their order; on an \<^verbatim>\<open>object\<close> column, which has no values, the start is not
  converted and the frame stays without rows. \<^verbatim>\<open>data["Dato"].iloc[0]\<close> raises on a frame
  without rows.
\<close>

definition resolve_start ::
  "to_datetime \<Rightarrow> dtype \<Rightarrow> frame \<Rightarrow> string option \<Rightarrow> error + frame \<times> bound" where
  "resolve_start to_dt dt data start =
     (case start of
        Some s \<Rightarrow>
          (case fix_dates s of
             Inl e \<Rightarrow> Inl e
           | Inr start' \<Rightarrow>
               (case dt of
                  Object \<Rightarrow> Inr (data, Str start')
                | Datetime64 \<Rightarrow>
                    (case to_dt start' of
                       None \<Rightarrow> Inl TypeError
                     | Some t \<Rightarrow> Inr (filter (\<lambda>r. Dato r \<ge> t) data, Str start'))))
      | None \<Rightarrow>
          (case data of
             [] \<Rightarrow> Inl IndexError
           | r # _ \<Rightarrow> Inr (data, Stamp (Dato r))))"

text \<open>Lines 70-74 (and 111-115), on the frame the lines before have left.\<close>

definition resolve_end ::
  "to_datetime \<Rightarrow> dtype \<Rightarrow> frame \<Rightarrow> string option \<Rightarrow> error + frame \<times> bound" where
  "resolve_end to_dt dt data end =
     (case end of
        Some s \<Rightarrow>
          (case fix_dates s of
             Inl e \<Rightarrow> Inl e
           | Inr end' \<Rightarrow>
               (case dt of
                  Object \<Rightarrow> Inr (data, Str end')
                | Datetime64 \<Rightarrow>
                    (case to_dt end' of
                       None \<Rightarrow> Inl TypeError
                     | Some t \<Rightarrow> Inr (filter (\<lambda>r. Dato r \<le> t) data, Str end'))))
      | None \<Rightarrow>
          (if data = [] then Inl IndexError else Inr (data, Stamp (Dato (last data)))))"

text \<open>
  Lines 64-74 (and 106-115) together, on the frame as loaded: the slice and the two
  resolved bounds. The dtype of the loaded column stays with the frame through both steps.
\<close>

definition range_filter ::
  "to_datetime \<Rightarrow> frame \<Rightarrow> string option \<Rightarrow> string option \<Rightarrow> error + frame \<times> bound \<times> bound" where
  "range_filter to_dt data start end =
     (let dt = Dato_dtype data in
      case resolve_start to_dt dt data start of
        Inl e \<Rightarrow> Inl e
      | Inr (data, start) \<Rightarrow>
     (case resolve_end to_dt dt data end of
        Inl e \<Rightarrow> Inl e
      | Inr (data, end) \<Rightarrow> Inr (data, start, end)))"

text \<open>The county of the title: lines 58-62, 100-104 and 145-146.\<close>

definition display_name :: "string \<Rightarrow> string" where
  "display_name county = (if county \<noteq> ''allcounties'' then county else ''Norge'')"

text \<open>\<^verbatim>\<open>plot_reported_cases\<close>, lines 49-89.\<close>

definition plot_reported_cases ::
  "filesystem \<Rightarrow> to_datetime \<Rightarrow> string \<Rightarrow> string option \<Rightarrow> string option \<Rightarrow> error + chart" where
  "plot_reported_cases fs to_dt county start end =
     (case (if county \<noteq> ''allcounties'' then get_data fs county else get_data fs ''allcounties'') of
        Inl e \<Rightarrow> Inl e
      | Inr data \<Rightarrow>
     (case range_filter to_dt data start end of
        Inl e \<Rightarrow> Inl e
      | Inr (data, start, end) \<Rightarrow>
     (case findall_first (str end) of
        Inl e \<Rightarrow> Inl e
      | Inr end \<Rightarrow>
     (case findall_first (str start) of
        Inl e \<Rightarrow> Inl e
      | Inr start \<Rightarrow>
          Inr \<lparr>title = ''Oversikt over antall rapporterte smitttede i '' @ display_name county
                        @ '' fra '' @ start @ '' til '' @ end,
               chart_data = data,
               chart_mark = Bar,
               encode_x = ''Dato'',
               encode_y = ''Nye tilfeller'',
               encode_tooltip = [''Dato'', ''Nye tilfeller''],
               width = Some 1120\<rparr>))))"

text \<open>\<^verbatim>\<open>plot_cumulative_cases\<close>, lines 92-131.\<close>

definition plot_cumulative_cases ::
  "filesystem \<Rightarrow> to_datetime \<Rightarrow> string \<Rightarrow> string option \<Rightarrow> string option \<Rightarrow> error + chart" where
  "plot_cumulative_cases fs to_dt county start end =
     (case (if county \<noteq> ''allcounties'' then get_data fs county else get_data fs ''allcounties'') of
        Inl e \<Rightarrow> Inl e
      | Inr data \<Rightarrow>
     (case range_filter to_dt data start end of
        Inl e \<Rightarrow> Inl e
      | Inr (data, start, end) \<Rightarrow>
     (case findall_first (str end) of
        Inl e \<Rightarrow> Inl e
      | Inr end \<Rightarrow>
     (case findall_first (str start) of
        Inl e \<Rightarrow> Inl e
      | Inr start \<Rightarrow>
          Inr \<lparr>title = ''Oversikt over komulativt antall smitttede i '' @ display_name county
                        @ '', fra '' @ start @ '' til '' @ end,
               chart_data = data,
               chart_mark = Line ''green'',
               encode_x = ''Dato'',
               encode_y = ''Kumulativt antall'',
               encode_tooltip = [''Dato'', ''Kumulativt antall''],
               width = Some 1120\<rparr>))))"

text \<open>
  \<^verbatim>\<open>alt.layer(*charts, title=t)\<close>: a width that the layers set moves from the layers
  to the layered chart (so altair 5 does it; height and view, which it treats alike, are
  not set here). Layers that set different widths are refused with \<^verbatim>\<open>ValueError\<close>.
\<close>

definition alt_layer :: "chart list \<Rightarrow> string \<Rightarrow> error + layer_chart" where
  "alt_layer charts t =
     (let values = concat (map (\<lambda>c. case width c of None \<Rightarrow> [] | Some w \<Rightarrow> [w]) charts) in
      if values \<noteq> [] \<and> \<not> list_all (\<lambda>v. v = hd values) (tl values) then Inl ValueError
      else Inr \<lparr>layer = map (\<lambda>c. c\<lparr>width := None\<rparr>) charts,
                layer_title = t,
                layer_width = (if values = [] then None else Some (hd values)),
                resolve_scale_y = None\<rparr>)"

definition resolve_scale :: "string \<Rightarrow> layer_chart \<Rightarrow> layer_chart" where
  "resolve_scale y c = c\<lparr>resolve_scale_y := Some y\<rparr>"

text \<open>\<^verbatim>\<open>plot_both\<close>, lines 134-150.\<close>

definition plot_both ::
  "filesystem \<Rightarrow> to_datetime \<Rightarrow> string \<Rightarrow> string option \<Rightarrow> string option \<Rightarrow> error + layer_chart" where
  "plot_both fs to_dt county start end =
     (case plot_reported_cases fs to_dt county start end of
        Inl e \<Rightarrow> Inl e
      | Inr reported_bar \<Rightarrow>
     (case plot_cumulative_cases fs to_dt county start end of
        Inl e \<Rightarrow> Inl e
      | Inr cumulative_line \<Rightarrow>
     (case alt_layer [reported_bar, cumulative_line]
             (''Oversikt over komulativt antall smitttede og antall rapporterte smitttede i ''
              @ (if county = ''allcounties'' then ''Norge'' else county)) of
        Inl e \<Rightarrow> Inl e
      | Inr both \<Rightarrow> Inr (resolve_scale ''independent'' both))))"

section \<open>A reader of ISO dates\<close>

text \<open>
  One instance of the parameter \<open>to_dt\<close>, for evaluating the functions on concrete
  requests: it reads exactly the strings \<^verbatim>\<open>YYYY-MM-DD\<close> that name a calendar date.
\<close>

definition digit_value :: "char \<Rightarrow> nat" where
  "digit_value c =
     (case map_of (zip ''0123456789'' [0, 1, 2, 3, 4, 5, 6, 7, 8, 9]) c of
        Some n \<Rightarrow> n
      | None \<Rightarrow> 0)"

definition days_in_month :: "nat \<Rightarrow> nat \<Rightarrow> nat" where
  "days_in_month y m =
     (if m = 2 then (if y mod 4 = 0 \<and> (y mod 100 \<noteq> 0 \<or> y mod 400 = 0) then 29 else 28)
      else if m = 4 \<or> m = 6 \<or> m = 9 \<or> m = 11 then 30 else 31)"

fun iso_to_datetime :: to_datetime where
  "iso_to_datetime [y1, y2, y3, y4, s1, m1, m2, s2, d1, d2] =
     (if date_prefix [y1, y2, y3, y4, s1, m1, m2, s2, d1, d2] then
        (let y = 1000 * digit_value y1 + 100 * digit_value y2 + 10 * digit_value y3 + digit_value y4;
             m = 10 * digit_value m1 + digit_value m2;
             d = 10 * digit_value d1 + digit_value d2
         in if 1 \<le> m \<and> m \<le> 12 \<and> 1 \<le> d \<and> d \<le> days_in_month y m then Some (y, m, d) else None)
      else None)"
| "iso_to_datetime _ = None"

section \<open>Valid date strings\<close>

text \<open>
  The two forms of a date the specification calls valid (its section 4.1), written after
  its words: the ISO form is the 4-2-2 digit grouping \<^verbatim>\<open>YYYY-MM-DD\<close>, the day-first
  form has a two-digit day, a two-digit month and a four-digit year.
\<close>

definition iso_date_string :: "string \<Rightarrow> bool" where
  "iso_date_string s = (length s = 10 \<and> date_prefix s)"

definition day_first_fields :: "string \<Rightarrow> string \<Rightarrow> string \<Rightarrow> bool" where
  "day_first_fields dd mm yyyy =
     (length dd = 2 \<and> length mm = 2 \<and> length yyyy = 4 \<and> list_all digit (dd @ mm @ yyyy))"

section \<open>Example data\<close>

text \<open>A frame of three days and file systems that hold it, for evaluating the functions.\<close>

definition three_days :: frame where
  "three_days =
     [\<lparr>Dato = (2020, 3, 12), Nye_tilfeller = 4, Kumulativt_antall = 4\<rparr>,
      \<lparr>Dato = (2020, 3, 13), Nye_tilfeller = 6, Kumulativt_antall = 10\<rparr>,
      \<lparr>Dato = (2020, 3, 14), Nye_tilfeller = 1, Kumulativt_antall = 11\<rparr>]"

definition oslo_files :: filesystem where
  "oslo_files = [file_path ''oslo'' \<mapsto> Table three_days]"

definition empty_files :: filesystem where
  "empty_files = [file_path ''oslo'' \<mapsto> Table []]"

definition norway_files :: filesystem where
  "norway_files = [file_path ''allcounties'' \<mapsto> Table three_days]"

section \<open>Loading a region\<close>







lemma get_data_lower_eq:
  "lower county = lower county' \<Longrightarrow> get_data fs county = get_data fs county'"
  by (simp add: get_data_def file_path_def)

lemma lower_allcounties: "lower ''allcounties'' = ''allcounties''"
  by (simp add: lower_char_def)



lemma load_county:
  "(if county \<noteq> ''allcounties'' then get_data fs county else get_data fs ''allcounties'')
     = get_data fs county"
  by simp

lemma get_data_allcounties:
  "fs (file_path ''allcounties'') = Some (Table data) \<Longrightarrow> get_data fs ''allcounties'' = Inr data"
  by (simp add: get_data_def read_csv_def)



text \<open>
  C8. When no file exists at the path of the region, loading fails with
  \<^verbatim>\<open>FileNotFoundError\<close> (the region-not-found error), and the three chart builders pass
  this error on unchanged.
\<close>

theorem missing_file_error:
  assumes "fs (file_path county) = None"
  shows "get_data fs county = Inl FileNotFoundError
    \<and> plot_reported_cases fs to_dt county start end = Inl FileNotFoundError
    \<and> plot_cumulative_cases fs to_dt county start end = Inl FileNotFoundError
    \<and> plot_both fs to_dt county start end = Inl FileNotFoundError"
proof -
  from assms have g: "get_data fs county = Inl FileNotFoundError"
    by (simp add: get_data_def read_csv_def)
  then have r: "plot_reported_cases fs to_dt county start end = Inl FileNotFoundError"
    by (simp add: plot_reported_cases_def load_county)
  from g have c: "plot_cumulative_cases fs to_dt county start end = Inl FileNotFoundError"
    by (simp add: plot_cumulative_cases_def load_county)
  from r have "plot_both fs to_dt county start end = Inl FileNotFoundError"
    by (simp add: plot_both_def)
  with g r c show ?thesis by simp
qed

theorem missing_file_error_witness:
  "oslo_files (file_path ''NonExistentRegion'') = None
   \<and> get_data oslo_files ''NonExistentRegion'' = Inl FileNotFoundError
   \<and> plot_both oslo_files iso_to_datetime ''NonExistentRegion'' None None
       = Inl FileNotFoundError"
proof -
  have h: "oslo_files (file_path ''NonExistentRegion'') = None"
    by (simp add: oslo_files_def file_path_def lower_char_def)
  from missing_file_error [of oslo_files "''NonExistentRegion''" iso_to_datetime None None] h
  show ?thesis by simp
qed

section \<open>Normalising a date\<close>

lemma split_not_Nil: "split s sep \<noteq> []"
  by (induction s) (auto simp: Let_def)

lemma split_no_sep: "sep \<notin> set s \<Longrightarrow> split s sep = [s]"
  by (induction s) (auto simp: Let_def)

lemma split_append: "sep \<notin> set a \<Longrightarrow> split (a @ sep # b) sep = a # split b sep"
  by (induction a) (auto simp: Let_def)

lemma length_split: "length (split s sep) = Suc (length (filter (\<lambda>c. c = sep) s))"
proof (induction s)
  case Nil
  then show ?case by simp
next
  case (Cons c cs)
  have "length (tl (split cs sep)) = length (split cs sep) - 1" by simp
  with Cons split_not_Nil [of cs sep] show ?case
    by (cases "split cs sep") (auto simp: Let_def)
qed

lemma digit_not_sep: "digit c \<Longrightarrow> c \<noteq> CHR ''-'' \<and> c \<noteq> CHR ''/''"
  by (auto simp: digit_def)

lemma date_prefix_dash: "date_prefix s \<Longrightarrow> CHR ''-'' \<in> set s"
  by (induction s rule: date_prefix.induct) auto

lemma three_fields:
  assumes "3 \<le> length xs"
  shows "\<exists>a b c rest. xs = a # b # c # rest"
proof -
  from assms obtain a xs1 where "xs = a # xs1" by (cases xs) auto
  moreover with assms obtain b xs2 where "xs1 = b # xs2" by (cases xs1) auto
  moreover with assms calculation obtain c rest where "xs2 = c # rest" by (cases xs2) auto
  ultimately show ?thesis by simp
qed

lemma fix_dates_dash: "CHR ''-'' \<in> set s \<Longrightarrow> fix_dates s = Inr s"
  by (simp add: fix_dates_def)

lemma fix_dates_three_fields:
  assumes "CHR ''-'' \<notin> set (dd @ mm @ yyyy)" "CHR ''/'' \<notin> set (dd @ mm @ yyyy)"
  shows "fix_dates (dd @ ''/'' @ mm @ ''/'' @ yyyy) = Inr (yyyy @ ''-'' @ mm @ ''-'' @ dd)"
proof -
  from assms(2) have "split (dd @ ''/'' @ mm @ ''/'' @ yyyy) (CHR ''/'') = [dd, mm, yyyy]"
    by (simp add: split_append split_no_sep)
  with assms(1) show ?thesis
    by (simp add: fix_dates_def)
qed

text \<open>
  C5. On the valid inputs \<^verbatim>\<open>fix_dates\<close> is the reference normalisation: a valid ISO
  date string is returned unchanged, and a valid day-first string \<^verbatim>\<open>dd/mm/yyyy\<close>
  becomes \<^verbatim>\<open>yyyy-mm-dd\<close>.
\<close>

theorem fix_dates_valid:
  assumes "iso_date_string d" and "day_first_fields dd mm yyyy"
  shows "fix_dates d = Inr d
    \<and> fix_dates (dd @ ''/'' @ mm @ ''/'' @ yyyy) = Inr (yyyy @ ''-'' @ mm @ ''-'' @ dd)"
proof -
  from assms(1) have "fix_dates d = Inr d"
    by (simp add: iso_date_string_def date_prefix_dash fix_dates_dash)
  moreover from assms(2) have "\<forall>c \<in> set (dd @ mm @ yyyy). digit c"
    by (simp add: day_first_fields_def list_all_iff)
  then have "CHR ''-'' \<notin> set (dd @ mm @ yyyy)" "CHR ''/'' \<notin> set (dd @ mm @ yyyy)"
    using digit_not_sep by blast+
  then have "fix_dates (dd @ ''/'' @ mm @ ''/'' @ yyyy) = Inr (yyyy @ ''-'' @ mm @ ''-'' @ dd)"
    by (rule fix_dates_three_fields)
  ultimately show ?thesis by simp
qed

theorem fix_dates_valid_witness:
  "iso_date_string ''2020-08-04'' \<and> day_first_fields ''12'' ''03'' ''2020''
   \<and> fix_dates ''2020-08-04'' = Inr ''2020-08-04''
   \<and> fix_dates ''12/03/2020'' = Inr ''2020-03-12''"
proof -
  have h1: "iso_date_string ''2020-08-04''"
    by (simp add: iso_date_string_def digit_def)
  have h2: "day_first_fields ''12'' ''03'' ''2020''"
    by (simp add: day_first_fields_def digit_def)
  from fix_dates_valid [OF h1 h2] h1 h2 show ?thesis by simp
qed

text \<open>
  C4, as the specification states it, fails: \<^verbatim>\<open>fix_dates\<close> validates nothing. The string
  \<^verbatim>\<open>2020-13-40\<close>, which names no calendar date, is returned unchanged, and a string of
  four fields is normalised from its first three.
\<close>

theorem fix_dates_no_validation:
  "fix_dates ''2020-13-40'' = Inr ''2020-13-40'' \<and> fix_dates ''1/2/3/4'' = Inr ''3-2-1''"
  by (simp add: fix_dates_def)

text \<open>
  C4, amended. \<^verbatim>\<open>fix_dates\<close> fails exactly on the strings that contain no \<^verbatim>\<open>-\<close> and
  fewer than two \<^verbatim>\<open>/\<close> (fewer than three fields), and then with \<^verbatim>\<open>IndexError\<close>.
  A string that contains \<^verbatim>\<open>-\<close> is returned unchanged, whatever it is; a string
  without \<^verbatim>\<open>-\<close> and with three fields or more is rebuilt from its first three fields.
\<close>

theorem fix_dates_cases:
  "(CHR ''-'' \<in> set s \<longrightarrow> fix_dates s = Inr s)
   \<and> (CHR ''-'' \<notin> set s \<and> length (filter (\<lambda>c. c = CHR ''/'') s) < 2
        \<longrightarrow> fix_dates s = Inl IndexError)
   \<and> (CHR ''-'' \<notin> set s \<and> 2 \<le> length (filter (\<lambda>c. c = CHR ''/'') s)
        \<longrightarrow> (\<exists>dd mm yyyy rest. split s (CHR ''/'') = dd # mm # yyyy # rest
               \<and> fix_dates s = Inr (yyyy @ ''-'' @ mm @ ''-'' @ dd)))"
proof -
  have a: "CHR ''-'' \<in> set s \<longrightarrow> fix_dates s = Inr s"
    by (simp add: fix_dates_dash)
  have b: "CHR ''-'' \<notin> set s \<and> length (filter (\<lambda>c. c = CHR ''/'') s) < 2
        \<longrightarrow> fix_dates s = Inl IndexError"
    by (simp add: fix_dates_def length_split)
  have c: "\<exists>dd mm yyyy rest. split s (CHR ''/'') = dd # mm # yyyy # rest
               \<and> fix_dates s = Inr (yyyy @ ''-'' @ mm @ ''-'' @ dd)"
    if h: "CHR ''-'' \<notin> set s" "2 \<le> length (filter (\<lambda>c. c = CHR ''/'') s)"
  proof -
    from h(2) have "3 \<le> length (split s (CHR ''/''))"
      by (simp add: length_split)
    then obtain dd mm yyyy rest where "split s (CHR ''/'') = dd # mm # yyyy # rest"
      using three_fields by blast
    with h(1) show ?thesis by (simp add: fix_dates_def)
  qed
  from a b c show ?thesis by blast
qed

theorem fix_dates_cases_witness:
  "CHR ''-'' \<in> set ''2020-13-40'' \<and> fix_dates ''2020-13-40'' = Inr ''2020-13-40''
   \<and> CHR ''-'' \<notin> set ''garbage'' \<and> length (filter (\<lambda>c. c = CHR ''/'') ''garbage'') < 2
   \<and> fix_dates ''garbage'' = Inl IndexError
   \<and> CHR ''-'' \<notin> set ''12/03/2020'' \<and> 2 \<le> length (filter (\<lambda>c. c = CHR ''/'') ''12/03/2020'')
   \<and> split ''12/03/2020'' (CHR ''/'') = [''12'', ''03'', ''2020'']
   \<and> fix_dates ''12/03/2020'' = Inr ''2020-03-12''"
  using fix_dates_cases [of "''2020-13-40''"] fix_dates_cases [of "''garbage''"]
    fix_dates_cases [of "''12/03/2020''"]
  by simp

section \<open>The regular expression of the titles\<close>

lemma digit_digit_char: "digit (digit_char n)"
proof -
  have "n mod 10 < length ''0123456789''" by simp
  then have "''0123456789'' ! (n mod 10) \<in> set ''0123456789''"
    by (rule nth_mem)
  then show ?thesis
    by (simp only: digit_def digit_char_def)
qed

lemma date_prefix_isoformat: "date_prefix (isoformat t @ rest)"
  by (cases t) (simp add: isoformat_def digit_digit_char)

lemma length_isoformat: "length (isoformat t) = 10"
  by (cases t) (simp add: isoformat_def)

lemma findall_first_date_prefix:
  "date_prefix s \<Longrightarrow> findall_first s = Inr (take 10 s)"
  by (cases s) simp_all

lemma date_prefix_chars:
  "date_prefix s \<Longrightarrow> \<forall>c \<in> set (take 10 s). digit c \<or> c = CHR ''-''"
  by (induction s rule: date_prefix.induct) simp_all

lemma findall_first_chars:
  "findall_first s = Inr m \<Longrightarrow> \<forall>c \<in> set m. digit c \<or> c = CHR ''-''"
proof (induction s)
  case Nil
  then show ?case by simp
next
  case (Cons c cs)
  show ?case
  proof (cases "date_prefix (c # cs)")
    case True
    with Cons.prems have "m = take 10 (c # cs)" by simp
    with date_prefix_chars [OF True] show ?thesis by (simp only:)
  next
    case False
    with Cons show ?thesis by simp
  qed
qed

lemma findall_first_Stamp: "findall_first (str (Stamp t)) = Inr (isoformat t)"
  using findall_first_date_prefix [OF date_prefix_isoformat, of t "'' 00:00:00''"]
  by (simp add: length_isoformat)

lemma findall_first_no_letter:
  "findall_first s = Inr m \<Longrightarrow> \<not> digit c \<Longrightarrow> c \<noteq> CHR ''-'' \<Longrightarrow> c \<notin> set m"
  using findall_first_chars by blast

lemma isoformat_chars: "\<forall>c \<in> set (isoformat t). digit c \<or> c = CHR ''-''"
  using findall_first_chars [OF findall_first_Stamp] .

lemma isoformat_no_letter: "\<not> digit c \<Longrightarrow> c \<noteq> CHR ''-'' \<Longrightarrow> c \<notin> set (isoformat t)"
  using isoformat_chars by blast

section \<open>Filtering a frame\<close>

lemma filter_le_takeWhile:
  "sorted (map f xs) \<Longrightarrow> filter (\<lambda>x. f x \<le> b) xs = takeWhile (\<lambda>x. f x \<le> (b::'b::linorder)) xs"
proof (induction xs)
  case Nil
  then show ?case by simp
next
  case (Cons x xs)
  show ?case
  proof (cases "f x \<le> b")
    case True
    with Cons show ?thesis by simp
  next
    case False
    with Cons.prems have "\<forall>y \<in> set xs. \<not> f y \<le> b" by auto
    then have "filter (\<lambda>x. f x \<le> b) xs = []" by (simp add: filter_empty_conv)
    with False show ?thesis by simp
  qed
qed

lemma filter_ge_dropWhile:
  "sorted (map f xs) \<Longrightarrow> filter (\<lambda>x. (a::'b::linorder) \<le> f x) xs = dropWhile (\<lambda>x. f x < a) xs"
proof (induction xs)
  case Nil
  then show ?case by simp
next
  case (Cons x xs)
  show ?case
  proof (cases "a \<le> f x")
    case True
    with Cons.prems have "\<forall>y \<in> set xs. a \<le> f y" by auto
    then have "filter (\<lambda>x. a \<le> f x) xs = xs" by (simp add: filter_id_conv)
    with True show ?thesis by simp
  next
    case False
    with Cons show ?thesis by simp
  qed
qed

lemma sorted_filter_sublist:
  assumes "sorted (map f xs)"
  shows "sublist (filter (\<lambda>x. (a::'b::linorder) \<le> f x \<and> f x \<le> b) xs) xs"
proof -
  let ?d = "dropWhile (\<lambda>x. f x < a) xs"
  have "sorted (map f ?d)"
    using assms by (metis sorted_wrt_dropWhile sorted_wrt_map)
  then have "filter (\<lambda>x. f x \<le> b) ?d = takeWhile (\<lambda>x. f x \<le> b) ?d"
    by (rule filter_le_takeWhile)
  moreover have "filter (\<lambda>x. a \<le> f x \<and> f x \<le> b) xs = filter (\<lambda>x. f x \<le> b) (filter (\<lambda>x. a \<le> f x) xs)"
    by (simp add: conj_commute)
  ultimately have eq: "filter (\<lambda>x. a \<le> f x \<and> f x \<le> b) xs = takeWhile (\<lambda>x. f x \<le> b) ?d"
    using filter_ge_dropWhile [OF assms, of a] by simp
  have "xs = takeWhile (\<lambda>x. f x < a) xs @ takeWhile (\<lambda>x. f x \<le> b) ?d @ dropWhile (\<lambda>x. f x \<le> b) ?d"
    by simp
  then show ?thesis
    unfolding eq sublist_def by blast
qed

lemma Min_filter_le:
  fixes f :: "'a \<Rightarrow> 'b::linorder"
  assumes "filter (\<lambda>x. f x \<le> b) xs \<noteq> []"
  shows "Min (f ` set (filter (\<lambda>x. f x \<le> b) xs)) = Min (f ` set xs)"
proof (rule Min_eqI)
  let ?m = "Min (f ` set xs)"
  from assms obtain y where y: "y \<in> set xs" "f y \<le> b"
    by (auto simp: filter_empty_conv)
  then have ne: "f ` set xs \<noteq> {}" by auto
  show "finite (f ` set (filter (\<lambda>x. f x \<le> b) xs))" by simp
  show "?m \<le> z" if "z \<in> f ` set (filter (\<lambda>x. f x \<le> b) xs)" for z
    using that by (auto intro: Min_le)
  from Min_in [OF _ ne] obtain x where x: "x \<in> set xs" "f x = ?m" by auto
  from y have "?m \<le> f y" by (auto intro: Min_le)
  with y(2) x(2) have "f x \<le> b" by (metis order_trans)
  with x show "?m \<in> f ` set (filter (\<lambda>x. f x \<le> b) xs)" by force
qed

lemma Max_filter_ge:
  fixes f :: "'a \<Rightarrow> 'b::linorder"
  assumes "filter (\<lambda>x. a \<le> f x) xs \<noteq> []"
  shows "Max (f ` set (filter (\<lambda>x. a \<le> f x) xs)) = Max (f ` set xs)"
proof (rule Max_eqI)
  let ?m = "Max (f ` set xs)"
  from assms obtain y where y: "y \<in> set xs" "a \<le> f y"
    by (auto simp: filter_empty_conv)
  then have ne: "f ` set xs \<noteq> {}" by auto
  show "finite (f ` set (filter (\<lambda>x. a \<le> f x) xs))" by simp
  show "z \<le> ?m" if "z \<in> f ` set (filter (\<lambda>x. a \<le> f x) xs)" for z
    using that by (auto intro: Max_ge)
  from Max_in [OF _ ne] obtain x where x: "x \<in> set xs" "f x = ?m" by auto
  from y have "f y \<le> ?m" by (auto intro: Max_ge)
  with y(2) x(2) have "a \<le> f x" by (metis order_trans)
  with x show "?m \<in> f ` set (filter (\<lambda>x. a \<le> f x) xs)" by force
qed

lemma sorted_hd_Min:
  fixes f :: "'a \<Rightarrow> 'b::linorder"
  assumes "sorted (map f xs)" "xs \<noteq> []"
  shows "f (hd xs) = Min (f ` set xs)"
proof -
  from assms(2) obtain x ys where xs: "xs = x # ys" by (cases xs) auto
  with assms(1) have "\<forall>y \<in> set xs. f x \<le> f y" by auto
  then have "Min (f ` set xs) = f x"
    using xs by (intro Min_eqI) auto
  with xs show ?thesis by simp
qed

lemma sorted_last_Max:
  fixes f :: "'a \<Rightarrow> 'b::linorder"
  assumes "sorted (map f xs)" "xs \<noteq> []"
  shows "f (last xs) = Max (f ` set xs)"
proof -
  have "\<forall>y \<in> set xs. f y \<le> f (last xs)"
    using assms
  proof (induction xs)
    case Nil
    then show ?case by simp
  next
    case (Cons x xs)
    then show ?case by (cases "xs = []") auto
  qed
  then have "Max (f ` set xs) = f (last xs)"
    using assms(2) by (intro Max_eqI) auto
  then show ?thesis by simp
qed

lemma last_filter_last:
  assumes "xs \<noteq> []" "P (last xs)"
  shows "filter P xs \<noteq> [] \<and> last (filter P xs) = last xs"
proof -
  from assms(1) have xs: "xs = butlast xs @ [last xs]" by simp
  have "filter P xs = filter P (butlast xs) @ filter P [last xs]"
    by (subst xs) (simp only: filter_append)
  with assms(2) show ?thesis by simp
qed

lemma sorted_filter_ge_Nil:
  fixes f :: "'a \<Rightarrow> 'b::linorder"
  assumes "sorted (map f xs)" "xs \<noteq> []" "f (last xs) < a"
  shows "filter (\<lambda>x. a \<le> f x) xs = []"
proof -
  have "\<not> a \<le> f y" if "y \<in> set xs" for y
  proof -
    from that have "f y \<le> Max (f ` set xs)" by (auto intro: Max_ge)
    with sorted_last_Max [OF assms(1,2)] have "f y \<le> f (last xs)" by simp
    with assms(3) show ?thesis by (metis leD order_trans)
  qed
  then show ?thesis by (simp add: filter_empty_conv)
qed

lemma sorted_filter_le_Nil:
  fixes f :: "'a \<Rightarrow> 'b::linorder"
  assumes "sorted (map f xs)" "xs \<noteq> []" "b < f (hd xs)"
  shows "filter (\<lambda>x. f x \<le> b) xs = []"
proof -
  have "\<not> f y \<le> b" if "y \<in> set xs" for y
  proof -
    from that have "Min (f ` set xs) \<le> f y" by (auto intro: Min_le)
    with sorted_hd_Min [OF assms(1,2)] have "f (hd xs) \<le> f y" by simp
    with assms(3) show ?thesis by (metis leD order_trans)
  qed
  then show ?thesis by (simp add: filter_empty_conv)
qed

section \<open>The range filter, case by case\<close>

lemma range_filter_explicit:
  assumes "fix_dates s = Inr start" "to_dt start = Some a"
    and "fix_dates e = Inr end" "to_dt end = Some b"
  shows "range_filter to_dt data (Some s) (Some e)
     = Inr (filter (\<lambda>r. a \<le> Dato r \<and> Dato r \<le> b) data, Str start, Str end)"
  using assms
  by (cases "data = []")
     (simp_all add: range_filter_def resolve_start_def resolve_end_def Dato_dtype_def conj_commute)

lemma range_filter_None_None:
  "data \<noteq> [] \<Longrightarrow>
     range_filter to_dt data None None = Inr (data, Stamp (Dato (hd data)), Stamp (Dato (last data)))"
  by (cases data)
     (simp_all add: range_filter_def resolve_start_def resolve_end_def Dato_dtype_def)

lemma range_filter_None_Some:
  assumes "data \<noteq> []" "fix_dates e = Inr end" "to_dt end = Some b"
  shows "range_filter to_dt data None (Some e)
     = Inr (filter (\<lambda>r. Dato r \<le> b) data, Stamp (Dato (hd data)), Str end)"
  using assms
  by (cases data)
     (simp_all add: range_filter_def resolve_start_def resolve_end_def Dato_dtype_def)

lemma range_filter_Some_None:
  assumes "fix_dates s = Inr start" "to_dt start = Some a"
  shows "range_filter to_dt data (Some s) None
     = (if filter (\<lambda>r. a \<le> Dato r) data = [] then Inl IndexError
        else Inr (filter (\<lambda>r. a \<le> Dato r) data, Str start,
                  Stamp (Dato (last (filter (\<lambda>r. a \<le> Dato r) data)))))"
  using assms
  by (cases "data = []")
     (simp_all add: range_filter_def resolve_start_def resolve_end_def Dato_dtype_def)

lemma range_filter_Nil_None:
  "range_filter to_dt [] None end = Inl IndexError"
  by (simp add: range_filter_def resolve_start_def Dato_dtype_def)

lemma range_filter_Nil_Some_None:
  "fix_dates s = Inr start \<Longrightarrow> range_filter to_dt [] (Some s) None = Inl IndexError"
  by (simp add: range_filter_def resolve_start_def resolve_end_def Dato_dtype_def)

section \<open>What the builders return\<close>

lemma plot_reported_cases_Inr:
  assumes "plot_reported_cases fs to_dt county start end = Inr c"
  shows "\<exists>data slice s e ms me.
     get_data fs county = Inr data \<and> range_filter to_dt data start end = Inr (slice, s, e)
     \<and> findall_first (str s) = Inr ms \<and> findall_first (str e) = Inr me
     \<and> c = \<lparr>title = ''Oversikt over antall rapporterte smitttede i '' @ display_name county
                        @ '' fra '' @ ms @ '' til '' @ me,
               chart_data = slice, chart_mark = Bar, encode_x = ''Dato'',
               encode_y = ''Nye tilfeller'', encode_tooltip = [''Dato'', ''Nye tilfeller''],
               width = Some 1120\<rparr>"
  using assms unfolding plot_reported_cases_def load_county
  by (auto split: sum.splits prod.splits)

lemma plot_cumulative_cases_Inr:
  assumes "plot_cumulative_cases fs to_dt county start end = Inr c"
  shows "\<exists>data slice s e ms me.
     get_data fs county = Inr data \<and> range_filter to_dt data start end = Inr (slice, s, e)
     \<and> findall_first (str s) = Inr ms \<and> findall_first (str e) = Inr me
     \<and> c = \<lparr>title = ''Oversikt over komulativt antall smitttede i '' @ display_name county
                        @ '', fra '' @ ms @ '' til '' @ me,
               chart_data = slice, chart_mark = Line ''green'', encode_x = ''Dato'',
               encode_y = ''Kumulativt antall'',
               encode_tooltip = [''Dato'', ''Kumulativt antall''], width = Some 1120\<rparr>"
  using assms unfolding plot_cumulative_cases_def load_county
  by (auto split: sum.splits prod.splits)

lemma width_reported:
  "plot_reported_cases fs to_dt county start end = Inr c \<Longrightarrow> width c = Some 1120"
  by (drule plot_reported_cases_Inr) auto

lemma width_cumulative:
  "plot_cumulative_cases fs to_dt county start end = Inr c \<Longrightarrow> width c = Some 1120"
  by (drule plot_cumulative_cases_Inr) auto

lemma alt_layer_two:
  "width a = Some w \<Longrightarrow> width b = Some w \<Longrightarrow>
     alt_layer [a, b] t
       = Inr \<lparr>layer = [a\<lparr>width := None\<rparr>, b\<lparr>width := None\<rparr>], layer_title = t,
              layer_width = Some w, resolve_scale_y = None\<rparr>"
  by (simp add: alt_layer_def)

lemma plot_both_ok:
  assumes "plot_reported_cases fs to_dt county start end = Inr reported_bar"
    and "plot_cumulative_cases fs to_dt county start end = Inr cumulative_line"
  shows "plot_both fs to_dt county start end
     = Inr \<lparr>layer = [reported_bar\<lparr>width := None\<rparr>, cumulative_line\<lparr>width := None\<rparr>],
             layer_title =
               ''Oversikt over komulativt antall smitttede og antall rapporterte smitttede i ''
               @ display_name county,
             layer_width = Some 1120,
             resolve_scale_y = Some ''independent''\<rparr>"
  unfolding plot_both_def assms
  by (simp add: alt_layer_two [OF width_reported [OF assms(1)] width_cumulative [OF assms(2)]]
      resolve_scale_def display_name_def)

lemma plot_both_Inr:
  assumes "plot_both fs to_dt county start end = Inr c"
  shows "\<exists>reported_bar cumulative_line.
     plot_reported_cases fs to_dt county start end = Inr reported_bar
     \<and> plot_cumulative_cases fs to_dt county start end = Inr cumulative_line
     \<and> c = \<lparr>layer = [reported_bar\<lparr>width := None\<rparr>, cumulative_line\<lparr>width := None\<rparr>],
             layer_title =
               ''Oversikt over komulativt antall smitttede og antall rapporterte smitttede i ''
               @ display_name county,
             layer_width = Some 1120,
             resolve_scale_y = Some ''independent''\<rparr>"
proof -
  from assms obtain b where b: "plot_reported_cases fs to_dt county start end = Inr b"
    unfolding plot_both_def by (cases "plot_reported_cases fs to_dt county start end") auto
  from assms b obtain l where l: "plot_cumulative_cases fs to_dt county start end = Inr l"
    unfolding plot_both_def by (cases "plot_cumulative_cases fs to_dt county start end") auto
  from plot_both_ok [OF b l] assms b l show ?thesis by simp
qed


lemma plot_reported_cases_ok:
  assumes "get_data fs county = Inr data" "range_filter to_dt data start end = Inr (slice, s, e)"
    and "findall_first (str s) = Inr ms" "findall_first (str e) = Inr me"
  shows "plot_reported_cases fs to_dt county start end
     = Inr \<lparr>title = ''Oversikt over antall rapporterte smitttede i '' @ display_name county
                        @ '' fra '' @ ms @ '' til '' @ me,
               chart_data = slice, chart_mark = Bar, encode_x = ''Dato'',
               encode_y = ''Nye tilfeller'', encode_tooltip = [''Dato'', ''Nye tilfeller''],
               width = Some 1120\<rparr>"
  using assms unfolding plot_reported_cases_def load_county by simp

lemma plot_cumulative_cases_ok:
  assumes "get_data fs county = Inr data" "range_filter to_dt data start end = Inr (slice, s, e)"
    and "findall_first (str s) = Inr ms" "findall_first (str e) = Inr me"
  shows "plot_cumulative_cases fs to_dt county start end
     = Inr \<lparr>title = ''Oversikt over komulativt antall smitttede i '' @ display_name county
                        @ '', fra '' @ ms @ '' til '' @ me,
               chart_data = slice, chart_mark = Line ''green'', encode_x = ''Dato'',
               encode_y = ''Kumulativt antall'',
               encode_tooltip = [''Dato'', ''Kumulativt antall''], width = Some 1120\<rparr>"
  using assms unfolding plot_cumulative_cases_def load_county by simp

lemma plots_ok:
  assumes "get_data fs county = Inr data" "range_filter to_dt data start end = Inr (slice, s, e)"
    and "findall_first (str s) = Inr ms" "findall_first (str e) = Inr me"
  shows "\<exists>bar line both.
      plot_reported_cases fs to_dt county start end = Inr bar
    \<and> plot_cumulative_cases fs to_dt county start end = Inr line
    \<and> plot_both fs to_dt county start end = Inr both
    \<and> map title (layer both) = [title bar, title line]
    \<and> map chart_data (layer both) = [slice, slice]
    \<and> chart_data bar = slice \<and> chart_data line = slice
    \<and> title bar = ''Oversikt over antall rapporterte smitttede i '' @ display_name county
                     @ '' fra '' @ ms @ '' til '' @ me
    \<and> title line = ''Oversikt over komulativt antall smitttede i '' @ display_name county
                     @ '', fra '' @ ms @ '' til '' @ me
    \<and> layer_title both
        = ''Oversikt over komulativt antall smitttede og antall rapporterte smitttede i ''
          @ display_name county"
proof -
  note r = plot_reported_cases_ok [OF assms]
  note c = plot_cumulative_cases_ok [OF assms]
  note b = plot_both_ok [OF r c]
  show ?thesis
    unfolding r c b by simp
qed

lemma chart_data_reported:
  assumes "get_data fs county = Inr data" "range_filter to_dt data start end = Inr (slice, s, e)"
    and "plot_reported_cases fs to_dt county start end = Inr c"
  shows "chart_data c = slice"
  using plot_reported_cases_Inr [OF assms(3)] assms(1,2) by auto

lemma chart_data_cumulative:
  assumes "get_data fs county = Inr data" "range_filter to_dt data start end = Inr (slice, s, e)"
    and "plot_cumulative_cases fs to_dt county start end = Inr c"
  shows "chart_data c = slice"
  using plot_cumulative_cases_Inr [OF assms(3)] assms(1,2) by auto

lemma plot_reported_cases_error:
  "get_data fs county = Inr data \<Longrightarrow> range_filter to_dt data start end = Inl err
     \<Longrightarrow> plot_reported_cases fs to_dt county start end = Inl err"
  unfolding plot_reported_cases_def load_county by simp

lemma plot_cumulative_cases_error:
  "get_data fs county = Inr data \<Longrightarrow> range_filter to_dt data start end = Inl err
     \<Longrightarrow> plot_cumulative_cases fs to_dt county start end = Inl err"
  unfolding plot_cumulative_cases_def load_county by simp

lemma plot_both_error:
  "plot_reported_cases fs to_dt county start end = Inl err
     \<Longrightarrow> plot_both fs to_dt county start end = Inl err"
  unfolding plot_both_def by simp

lemma plot_reported_cases_data:
  "map_sum id chart_data (plot_reported_cases fs to_dt county start end)
     = (case get_data fs county of
          Inl err \<Rightarrow> Inl err
        | Inr data \<Rightarrow>
       (case range_filter to_dt data start end of
          Inl err \<Rightarrow> Inl err
        | Inr (slice, s, e) \<Rightarrow>
       (case findall_first (str e) of
          Inl err \<Rightarrow> Inl err
        | Inr me \<Rightarrow>
       (case findall_first (str s) of
          Inl err \<Rightarrow> Inl err
        | Inr ms \<Rightarrow> Inr slice))))"
  unfolding plot_reported_cases_def load_county
  by (auto split: sum.splits prod.splits)

lemma plot_cumulative_cases_data:
  "map_sum id chart_data (plot_cumulative_cases fs to_dt county start end)
     = (case get_data fs county of
          Inl err \<Rightarrow> Inl err
        | Inr data \<Rightarrow>
       (case range_filter to_dt data start end of
          Inl err \<Rightarrow> Inl err
        | Inr (slice, s, e) \<Rightarrow>
       (case findall_first (str e) of
          Inl err \<Rightarrow> Inl err
        | Inr me \<Rightarrow>
       (case findall_first (str s) of
          Inl err \<Rightarrow> Inl err
        | Inr ms \<Rightarrow> Inr slice))))"
  unfolding plot_cumulative_cases_def load_county
  by (auto split: sum.splits prod.splits)

lemma plot_reported_cases_data_eq:
  assumes "lower county = lower county'"
  shows "map_sum id chart_data (plot_reported_cases fs to_dt county start end)
       = map_sum id chart_data (plot_reported_cases fs to_dt county' start end)"
  by (simp only: plot_reported_cases_data get_data_lower_eq [OF assms])

lemma plot_cumulative_cases_data_eq:
  assumes "lower county = lower county'"
  shows "map_sum id chart_data (plot_cumulative_cases fs to_dt county start end)
       = map_sum id chart_data (plot_cumulative_cases fs to_dt county' start end)"
  by (simp only: plot_cumulative_cases_data get_data_lower_eq [OF assms])

section \<open>The example data, evaluated\<close>

lemma three_days_sorted: "sorted (map Dato three_days)"
  by (simp add: three_days_def)

lemma three_days_not_Nil: "three_days \<noteq> []"
  by (simp add: three_days_def)

lemma fix_dates_13: "fix_dates ''13/03/2020'' = Inr ''2020-03-13''"
  by (simp add: fix_dates_def)

lemma fix_dates_14: "fix_dates ''2020-03-14'' = Inr ''2020-03-14''"
  by (simp add: fix_dates_def)

lemma fix_dates_2021: "fix_dates ''01/01/2021'' = Inr ''2021-01-01''"
  by (simp add: fix_dates_def)

lemma fix_dates_jan: "fix_dates ''2020-01-01'' = Inr ''2020-01-01''"
  by (simp add: fix_dates_def)

lemma iso_to_datetime_13: "iso_to_datetime ''2020-03-13'' = Some (2020, 3, 13)"
  by (simp add: digit_def digit_value_def days_in_month_def)

lemma iso_to_datetime_14: "iso_to_datetime ''2020-03-14'' = Some (2020, 3, 14)"
  by (simp add: digit_def digit_value_def days_in_month_def)

lemma iso_to_datetime_2021: "iso_to_datetime ''2021-01-01'' = Some (2021, 1, 1)"
  by (simp add: digit_def digit_value_def days_in_month_def)

lemma iso_to_datetime_jan: "iso_to_datetime ''2020-01-01'' = Some (2020, 1, 1)"
  by (simp add: digit_def digit_value_def days_in_month_def)

lemma findall_first_13: "findall_first ''2020-03-13'' = Inr ''2020-03-13''"
  by (simp add: digit_def)

lemma findall_first_14: "findall_first ''2020-03-14'' = Inr ''2020-03-14''"
  by (simp add: digit_def)

lemma findall_first_2021: "findall_first ''2021-01-01'' = Inr ''2021-01-01''"
  by (simp add: digit_def)

lemma findall_first_jan: "findall_first ''2020-01-01'' = Inr ''2020-01-01''"
  by (simp add: digit_def)

lemma isoformat_first: "isoformat (Dato (hd three_days)) = ''2020-03-12''"
  by (simp add: three_days_def isoformat_def digit_char_def)

lemma isoformat_last: "isoformat (Dato (last three_days)) = ''2020-03-14''"
  by (simp add: three_days_def isoformat_def digit_char_def)

lemma file_path_Oslo: "file_path ''Oslo'' = file_path ''oslo''"
  by (simp add: file_path_def lower_char_def)

lemma get_data_Oslo: "get_data oslo_files ''Oslo'' = Inr three_days"
  by (simp add: get_data_def read_csv_def oslo_files_def file_path_Oslo)

lemma get_data_Oslo_empty: "get_data empty_files ''Oslo'' = Inr []"
  by (simp add: get_data_def read_csv_def empty_files_def file_path_Oslo)

lemma norway_file: "norway_files (file_path ''allcounties'') = Some (Table three_days)"
  by (simp add: norway_files_def)

lemma lower_AllCounties: "lower ''AllCounties'' = ''allcounties''"
  by (simp add: lower_char_def)

lemma get_data_AllCounties: "get_data norway_files ''AllCounties'' = Inr three_days"
  by (simp add: get_data_def read_csv_def norway_files_def file_path_def lower_char_def)

section \<open>Explicit bounds\<close>

text \<open>
  C1. With both bounds given (and read by pandas as the dates \<open>a\<close> and \<open>b\<close>), the range
  filter keeps exactly the rows with \<open>a \<le> Dato \<le> b\<close>, both bounds included and in the
  order of the frame; on a frame sorted by date, as a region dataset is, the rows kept are
  a contiguous part of it. The slice is the data of the bar chart and of the line chart.
\<close>

theorem range_filter_inclusive:
  assumes "fix_dates s = Inr start" "to_dt start = Some a"
    and "fix_dates e = Inr end" "to_dt end = Some b"
  shows "\<exists>slice. range_filter to_dt data (Some s) (Some e) = Inr (slice, Str start, Str end)
      \<and> slice = filter (\<lambda>r. a \<le> Dato r \<and> Dato r \<le> b) data
      \<and> (sorted (map Dato data) \<longrightarrow> sublist slice data)
      \<and> (\<forall>c. get_data fs county = Inr data
             \<and> (plot_reported_cases fs to_dt county (Some s) (Some e) = Inr c
                \<or> plot_cumulative_cases fs to_dt county (Some s) (Some e) = Inr c)
            \<longrightarrow> chart_data c = slice)"
proof -
  let ?slice = "filter (\<lambda>r. a \<le> Dato r \<and> Dato r \<le> b) data"
  have rf: "range_filter to_dt data (Some s) (Some e) = Inr (?slice, Str start, Str end)"
    using assms by (rule range_filter_explicit)
  have "sublist ?slice data" if "sorted (map Dato data)"
    using that by (rule sorted_filter_sublist)
  moreover have "chart_data c = ?slice"
    if "get_data fs county = Inr data"
      "plot_reported_cases fs to_dt county (Some s) (Some e) = Inr c
        \<or> plot_cumulative_cases fs to_dt county (Some s) (Some e) = Inr c" for c
    using that chart_data_reported [OF that(1) rf] chart_data_cumulative [OF that(1) rf]
    by blast
  ultimately show ?thesis using rf by blast
qed

theorem range_filter_inclusive_witness:
  "fix_dates ''13/03/2020'' = Inr ''2020-03-13''
   \<and> iso_to_datetime ''2020-03-13'' = Some (2020, 3, 13)
   \<and> fix_dates ''2020-03-14'' = Inr ''2020-03-14''
   \<and> iso_to_datetime ''2020-03-14'' = Some (2020, 3, 14)
   \<and> sorted (map Dato three_days)
   \<and> range_filter iso_to_datetime three_days (Some ''13/03/2020'') (Some ''2020-03-14'')
       = Inr (tl three_days, Str ''2020-03-13'', Str ''2020-03-14'')
   \<and> sublist (tl three_days) three_days
   \<and> get_data oslo_files ''Oslo'' = Inr three_days
   \<and> (\<exists>c. plot_reported_cases oslo_files iso_to_datetime ''Oslo''
              (Some ''13/03/2020'') (Some ''2020-03-14'') = Inr c
          \<and> chart_data c = tl three_days)"
proof -
  note inst = range_filter_inclusive [OF fix_dates_13 iso_to_datetime_13 fix_dates_14
      iso_to_datetime_14, of three_days oslo_files "''Oslo''"]
  have slice: "filter (\<lambda>r. (2020, 3, 13) \<le> Dato r \<and> Dato r \<le> (2020, 3, 14)) three_days
      = tl three_days"
    by (simp add: three_days_def)
  from inst three_days_sorted have rf:
    "range_filter iso_to_datetime three_days (Some ''13/03/2020'') (Some ''2020-03-14'')
       = Inr (tl three_days, Str ''2020-03-13'', Str ''2020-03-14'')"
    and sub: "sublist (tl three_days) three_days"
    unfolding slice by simp_all
  have "findall_first (str (Str ''2020-03-13'')) = Inr ''2020-03-13''"
    "findall_first (str (Str ''2020-03-14'')) = Inr ''2020-03-14''"
    using findall_first_13 findall_first_14 by simp_all
  from plots_ok [OF get_data_Oslo rf this]
  obtain c where c: "plot_reported_cases oslo_files iso_to_datetime ''Oslo''
              (Some ''13/03/2020'') (Some ''2020-03-14'') = Inr c"
    by auto
  with inst get_data_Oslo have "chart_data c = tl three_days"
    unfolding slice by simp
  with c have "\<exists>c. plot_reported_cases oslo_files iso_to_datetime ''Oslo''
              (Some ''13/03/2020'') (Some ''2020-03-14'') = Inr c
          \<and> chart_data c = tl three_days"
    by (intro exI [of _ c]) simp
  with fix_dates_13 iso_to_datetime_13 fix_dates_14 iso_to_datetime_14 three_days_sorted rf sub
    get_data_Oslo
  show ?thesis by (simp only: simp_thms)
qed

section \<open>Omitted bounds\<close>

text \<open>
  C2, as the specification states it, fails. The end bound is read from the frame that the
  start bound has already filtered: a start after the last date of a sorted dataset that
  has rows leaves nothing to read, and \<^verbatim>\<open>iloc[-1]\<close> raises \<^verbatim>\<open>IndexError\<close> where
  the claim promises the date of the last record. A dataset without rows raises as well.
\<close>

theorem omitted_end_counterexample:
  "three_days \<noteq> [] \<and> sorted (map Dato three_days)
   \<and> fix_dates ''01/01/2021'' = Inr ''2021-01-01''
   \<and> iso_to_datetime ''2021-01-01'' = Some (2021, 1, 1)
   \<and> range_filter iso_to_datetime three_days (Some ''01/01/2021'') None = Inl IndexError
   \<and> range_filter iso_to_datetime [] None None = Inl IndexError"
proof -
  have "range_filter iso_to_datetime three_days (Some ''01/01/2021'') None = Inl IndexError"
    by (simp add: range_filter_Some_None [where to_dt = iso_to_datetime, OF fix_dates_2021 iso_to_datetime_2021] three_days_def)
  with fix_dates_2021 iso_to_datetime_2021 three_days_sorted show ?thesis
    by (simp add: range_filter_Nil_None) (simp add: three_days_def)
qed

text \<open>
  C2, amended. On a dataset that has rows: with both bounds omitted the resolved bounds are
  the dates of the first and of the last record and the slice is the whole dataset; with
  the start omitted the resolved start is the date of the first record, and a slice that
  has rows has the minimum date of the dataset; with the end omitted and a start that is
  not after the date of the last record, the resolved end is the date of the last record,
  the slice has rows and has the maximum date of the dataset; a start after the last date
  of a sorted dataset raises \<^verbatim>\<open>IndexError\<close>. On a sorted dataset the first and last
  records carry the minimum and maximum dates.
\<close>

theorem omitted_bounds:
  assumes "data \<noteq> []"
  shows "range_filter to_dt data None None
           = Inr (data, Stamp (Dato (hd data)), Stamp (Dato (last data)))
    \<and> (fix_dates e = Inr end \<and> to_dt end = Some b \<longrightarrow>
         (\<exists>slice. range_filter to_dt data None (Some e)
                     = Inr (slice, Stamp (Dato (hd data)), Str end)
            \<and> (slice \<noteq> [] \<longrightarrow> Min (Dato ` set slice) = Min (Dato ` set data))))
    \<and> (fix_dates s = Inr start \<and> to_dt start = Some a \<and> a \<le> Dato (last data) \<longrightarrow>
         (\<exists>slice. range_filter to_dt data (Some s) None
                     = Inr (slice, Str start, Stamp (Dato (last data)))
            \<and> slice \<noteq> [] \<and> Max (Dato ` set slice) = Max (Dato ` set data)))
    \<and> (fix_dates s = Inr start \<and> to_dt start = Some a \<and> sorted (map Dato data)
          \<and> Dato (last data) < a \<longrightarrow>
         range_filter to_dt data (Some s) None = Inl IndexError)
    \<and> (sorted (map Dato data) \<longrightarrow>
         Dato (hd data) = Min (Dato ` set data) \<and> Dato (last data) = Max (Dato ` set data))"
proof -
  have both: "range_filter to_dt data None None
           = Inr (data, Stamp (Dato (hd data)), Stamp (Dato (last data)))"
    using assms by (rule range_filter_None_None)
  have no_start: "\<exists>slice. range_filter to_dt data None (Some e)
                     = Inr (slice, Stamp (Dato (hd data)), Str end)
            \<and> (slice \<noteq> [] \<longrightarrow> Min (Dato ` set slice) = Min (Dato ` set data))"
    if "fix_dates e = Inr end" "to_dt end = Some b"
  proof -
    have "range_filter to_dt data None (Some e)
        = Inr (filter (\<lambda>r. Dato r \<le> b) data, Stamp (Dato (hd data)), Str end)"
      using assms that by (rule range_filter_None_Some)
    with Min_filter_le [of Dato b data] show ?thesis by simp
  qed
  have no_end: "\<exists>slice. range_filter to_dt data (Some s) None
                     = Inr (slice, Str start, Stamp (Dato (last data)))
            \<and> slice \<noteq> [] \<and> Max (Dato ` set slice) = Max (Dato ` set data)"
    if h: "fix_dates s = Inr start" "to_dt start = Some a" "a \<le> Dato (last data)"
  proof -
    from last_filter_last [of data "\<lambda>r. a \<le> Dato r"] assms h(3)
    have l: "filter (\<lambda>r. a \<le> Dato r) data \<noteq> []"
      "last (filter (\<lambda>r. a \<le> Dato r) data) = last data"
      by simp_all
    have "range_filter to_dt data (Some s) None
     = (if filter (\<lambda>r. a \<le> Dato r) data = [] then Inl IndexError
        else Inr (filter (\<lambda>r. a \<le> Dato r) data, Str start,
                  Stamp (Dato (last (filter (\<lambda>r. a \<le> Dato r) data)))))"
      using h(1,2) by (rule range_filter_Some_None)
    with l Max_filter_ge [OF l(1)] show ?thesis by simp
  qed
  have beyond: "range_filter to_dt data (Some s) None = Inl IndexError"
    if h: "fix_dates s = Inr start" "to_dt start = Some a" "sorted (map Dato data)"
      "Dato (last data) < a"
  proof -
    have "range_filter to_dt data (Some s) None
     = (if filter (\<lambda>r. a \<le> Dato r) data = [] then Inl IndexError
        else Inr (filter (\<lambda>r. a \<le> Dato r) data, Str start,
                  Stamp (Dato (last (filter (\<lambda>r. a \<le> Dato r) data)))))"
      using h(1,2) by (rule range_filter_Some_None)
    with sorted_filter_ge_Nil [OF h(3) assms h(4)] show ?thesis by simp
  qed
  have ends: "Dato (hd data) = Min (Dato ` set data) \<and> Dato (last data) = Max (Dato ` set data)"
    if "sorted (map Dato data)"
    using sorted_hd_Min [OF that assms] sorted_last_Max [OF that assms] by simp
  from both no_start no_end beyond ends show ?thesis by blast
qed

theorem omitted_bounds_witness:
  "three_days \<noteq> []
   \<and> fix_dates ''13/03/2020'' = Inr ''2020-03-13''
   \<and> iso_to_datetime ''2020-03-13'' = Some (2020, 3, 13)
   \<and> (2020, 3, 13) \<le> Dato (last three_days)
   \<and> fix_dates ''01/01/2021'' = Inr ''2021-01-01''
   \<and> iso_to_datetime ''2021-01-01'' = Some (2021, 1, 1)
   \<and> sorted (map Dato three_days)
   \<and> Dato (last three_days) < (2021, 1, 1)
   \<and> range_filter iso_to_datetime three_days None None
       = Inr (three_days, Stamp (2020, 3, 12), Stamp (2020, 3, 14))
   \<and> range_filter iso_to_datetime three_days None (Some ''13/03/2020'')
       = Inr (butlast three_days, Stamp (2020, 3, 12), Str ''2020-03-13'')
   \<and> range_filter iso_to_datetime three_days (Some ''13/03/2020'') None
       = Inr (tl three_days, Str ''2020-03-13'', Stamp (2020, 3, 14))
   \<and> range_filter iso_to_datetime three_days (Some ''01/01/2021'') None = Inl IndexError"
proof -
  have ne: "three_days \<noteq> []" by (simp add: three_days_def)
  have le: "(2020, 3, 13) \<le> Dato (last three_days)" by (simp add: three_days_def)
  have less: "Dato (last three_days) < (2021, 1, 1)" by (simp add: three_days_def)
  note inst1 = omitted_bounds [OF ne, of iso_to_datetime "''13/03/2020''" "''2020-03-13''"
      "(2020, 3, 13)" "''13/03/2020''" "''2020-03-13''" "(2020, 3, 13)"]
  note inst2 = omitted_bounds [OF ne, of iso_to_datetime "''13/03/2020''" "''2020-03-13''"
      "(2020, 3, 13)" "''01/01/2021''" "''2021-01-01''" "(2021, 1, 1)"]
  from inst1 fix_dates_13 iso_to_datetime_13 le
  have a: "range_filter iso_to_datetime three_days None None
       = Inr (three_days, Stamp (Dato (hd three_days)), Stamp (Dato (last three_days)))"
    and b: "\<exists>slice. range_filter iso_to_datetime three_days None (Some ''13/03/2020'')
                = Inr (slice, Stamp (Dato (hd three_days)), Str ''2020-03-13'')"
    and c: "\<exists>slice. range_filter iso_to_datetime three_days (Some ''13/03/2020'') None
                = Inr (slice, Str ''2020-03-13'', Stamp (Dato (last three_days)))"
    by blast+
  from inst2 fix_dates_2021 iso_to_datetime_2021 three_days_sorted less
  have d: "range_filter iso_to_datetime three_days (Some ''01/01/2021'') None = Inl IndexError"
    by blast
  have b': "range_filter iso_to_datetime three_days None (Some ''13/03/2020'')
       = Inr (butlast three_days, Stamp (2020, 3, 12), Str ''2020-03-13'')"
    by (simp add: range_filter_None_Some [where to_dt = iso_to_datetime, OF ne fix_dates_13 iso_to_datetime_13])
       (simp add: three_days_def)
  have c': "range_filter iso_to_datetime three_days (Some ''13/03/2020'') None
       = Inr (tl three_days, Str ''2020-03-13'', Stamp (2020, 3, 14))"
    by (simp add: range_filter_Some_None [where to_dt = iso_to_datetime, OF fix_dates_13 iso_to_datetime_13])
       (simp add: three_days_def)
  from a have a': "range_filter iso_to_datetime three_days None None
       = Inr (three_days, Stamp (2020, 3, 12), Stamp (2020, 3, 14))"
    by (simp add: three_days_def)
  from ne le less fix_dates_13 iso_to_datetime_13 fix_dates_2021 iso_to_datetime_2021
    three_days_sorted a' b' c' d
  show ?thesis by (simp only: simp_thms)
qed

section \<open>Empty slices\<close>

text \<open>
  C3, as the specification states it, fails: the three builders raise \<^verbatim>\<open>IndexError\<close>
  when the end is omitted and the start lies after the last date (the resolved start would
  exceed the resolved end), and when a bound is omitted on a dataset without rows.
\<close>

theorem empty_slice_counterexample:
  "get_data oslo_files ''Oslo'' = Inr three_days
   \<and> fix_dates ''01/01/2021'' = Inr ''2021-01-01''
   \<and> iso_to_datetime ''2021-01-01'' = Some (2021, 1, 1)
   \<and> Dato (last three_days) < (2021, 1, 1)
   \<and> plot_reported_cases oslo_files iso_to_datetime ''Oslo'' (Some ''01/01/2021'') None
       = Inl IndexError
   \<and> plot_cumulative_cases oslo_files iso_to_datetime ''Oslo'' (Some ''01/01/2021'') None
       = Inl IndexError
   \<and> plot_both oslo_files iso_to_datetime ''Oslo'' (Some ''01/01/2021'') None = Inl IndexError
   \<and> get_data empty_files ''Oslo'' = Inr []
   \<and> plot_reported_cases empty_files iso_to_datetime ''Oslo'' None None = Inl IndexError
   \<and> plot_cumulative_cases empty_files iso_to_datetime ''Oslo'' None None = Inl IndexError
   \<and> plot_both empty_files iso_to_datetime ''Oslo'' None None = Inl IndexError"
proof -
  have rf: "range_filter iso_to_datetime three_days (Some ''01/01/2021'') None = Inl IndexError"
    by (simp add: range_filter_Some_None [where to_dt = iso_to_datetime,
          OF fix_dates_2021 iso_to_datetime_2021] three_days_def)
  note r = plot_reported_cases_error [OF get_data_Oslo rf]
  note c = plot_cumulative_cases_error [OF get_data_Oslo rf]
  note b = plot_both_error [OF r]
  note r' = plot_reported_cases_error [OF get_data_Oslo_empty range_filter_Nil_None,
      of iso_to_datetime None]
  note c' = plot_cumulative_cases_error [OF get_data_Oslo_empty range_filter_Nil_None,
      of iso_to_datetime None]
  note b' = plot_both_error [OF r']
  have less: "Dato (last three_days) < (2021, 1, 1)" by (simp add: three_days_def)
  from get_data_Oslo fix_dates_2021 iso_to_datetime_2021 less r c b get_data_Oslo_empty r' c' b'
  show ?thesis by (simp only: simp_thms)
qed

text \<open>
  C3, amended. On every dataset: with both bounds explicit and well-formed (normalised by
  \<^verbatim>\<open>fix_dates\<close>, read by pandas, a date found in them for the title), when the start lies
  after the end or the dataset has no rows, the three builders raise no error; the bar
  chart and the line chart, alone and as the layers of the combined chart, have no data
  point, their titles carry the resolved bounds, and the title of the combined chart names
  the region. The same holds with the start omitted and a well-formed end, on a sorted
  dataset with rows whose first date lies after the end. When a bound is omitted and the
  frame it is read from has no rows, the three builders raise \<^verbatim>\<open>IndexError\<close>: that is
  the start omitted on a dataset without rows, whatever the end, and the end omitted after
  an explicit start that \<^verbatim>\<open>fix_dates\<close> accepts, on a dataset without rows or one where
  no date is on or after the start.
\<close>

theorem empty_slice_chart:
  assumes "get_data fs county = Inr data"
  shows "(fix_dates s = Inr start \<and> to_dt start = Some a \<and> findall_first start = Inr ms
          \<and> fix_dates e = Inr end \<and> to_dt end = Some b \<and> findall_first end = Inr me
          \<and> (b < a \<or> data = []) \<longrightarrow>
           (\<exists>bar line both.
           plot_reported_cases fs to_dt county (Some s) (Some e) = Inr bar
           \<and> plot_cumulative_cases fs to_dt county (Some s) (Some e) = Inr line
           \<and> plot_both fs to_dt county (Some s) (Some e) = Inr both
           \<and> chart_data bar = [] \<and> chart_data line = []
           \<and> map chart_data (layer both) = [[], []]
           \<and> title bar = ''Oversikt over antall rapporterte smitttede i '' @ display_name county
                 @ '' fra '' @ ms @ '' til '' @ me
           \<and> title line = ''Oversikt over komulativt antall smitttede i '' @ display_name county
                 @ '', fra '' @ ms @ '' til '' @ me
           \<and> map title (layer both) = [title bar, title line]
           \<and> layer_title both
               = ''Oversikt over komulativt antall smitttede og antall rapporterte smitttede i ''
                 @ display_name county))
    \<and> (data \<noteq> [] \<and> sorted (map Dato data)
          \<and> fix_dates e = Inr end \<and> to_dt end = Some b \<and> findall_first end = Inr me
          \<and> b < Dato (hd data) \<longrightarrow>
           (\<exists>bar line both.
           plot_reported_cases fs to_dt county None (Some e) = Inr bar
           \<and> plot_cumulative_cases fs to_dt county None (Some e) = Inr line
           \<and> plot_both fs to_dt county None (Some e) = Inr both
           \<and> chart_data bar = [] \<and> chart_data line = []
           \<and> map chart_data (layer both) = [[], []]
           \<and> title bar = ''Oversikt over antall rapporterte smitttede i '' @ display_name county
                 @ '' fra '' @ isoformat (Dato (hd data)) @ '' til '' @ me
           \<and> title line = ''Oversikt over komulativt antall smitttede i '' @ display_name county
                 @ '', fra '' @ isoformat (Dato (hd data)) @ '' til '' @ me
           \<and> map title (layer both) = [title bar, title line]
           \<and> layer_title both
               = ''Oversikt over komulativt antall smitttede og antall rapporterte smitttede i ''
                 @ display_name county))
    \<and> (data = [] \<longrightarrow>
        plot_reported_cases fs to_dt county None bound = Inl IndexError
        \<and> plot_cumulative_cases fs to_dt county None bound = Inl IndexError
        \<and> plot_both fs to_dt county None bound = Inl IndexError)
    \<and> (fix_dates s = Inr start
          \<and> (data = [] \<or> to_dt start = Some a \<and> filter (\<lambda>r. a \<le> Dato r) data = []) \<longrightarrow>
        plot_reported_cases fs to_dt county (Some s) None = Inl IndexError
        \<and> plot_cumulative_cases fs to_dt county (Some s) None = Inl IndexError
        \<and> plot_both fs to_dt county (Some s) None = Inl IndexError)"
proof (intro conjI impI)
  assume h: "fix_dates s = Inr start \<and> to_dt start = Some a \<and> findall_first start = Inr ms
          \<and> fix_dates e = Inr end \<and> to_dt end = Some b \<and> findall_first end = Inr me
          \<and> (b < a \<or> data = [])"
  let ?slice = "filter (\<lambda>r. a \<le> Dato r \<and> Dato r \<le> b) data"
  from h have "fix_dates s = Inr start" "to_dt start = Some a"
    "fix_dates e = Inr end" "to_dt end = Some b" by simp_all
  then have rf: "range_filter to_dt data (Some s) (Some e) = Inr (?slice, Str start, Str end)"
    by (rule range_filter_explicit)
  from h have "\<forall>r \<in> set data. \<not> (a \<le> Dato r \<and> Dato r \<le> b)"
    by (auto simp: not_le dest: order_trans)
  then have "?slice = []" by (simp add: filter_empty_conv)
  with rf have rf': "range_filter to_dt data (Some s) (Some e) = Inr ([], Str start, Str end)"
    by simp
  from h have "findall_first (str (Str start)) = Inr ms"
    "findall_first (str (Str end)) = Inr me" by simp_all
  from plots_ok [OF assms rf' this]
  show "(\<exists>bar line both.
           plot_reported_cases fs to_dt county (Some s) (Some e) = Inr bar
           \<and> plot_cumulative_cases fs to_dt county (Some s) (Some e) = Inr line
           \<and> plot_both fs to_dt county (Some s) (Some e) = Inr both
           \<and> chart_data bar = [] \<and> chart_data line = []
           \<and> map chart_data (layer both) = [[], []]
           \<and> title bar = ''Oversikt over antall rapporterte smitttede i '' @ display_name county
                 @ '' fra '' @ ms @ '' til '' @ me
           \<and> title line = ''Oversikt over komulativt antall smitttede i '' @ display_name county
                 @ '', fra '' @ ms @ '' til '' @ me
           \<and> map title (layer both) = [title bar, title line]
           \<and> layer_title both
               = ''Oversikt over komulativt antall smitttede og antall rapporterte smitttede i ''
                 @ display_name county)"
    by (elim exE conjE) (intro exI conjI, assumption+)
next
  assume h: "data \<noteq> [] \<and> sorted (map Dato data)
          \<and> fix_dates e = Inr end \<and> to_dt end = Some b \<and> findall_first end = Inr me
          \<and> b < Dato (hd data)"
  then have ne: "data \<noteq> []" and e: "fix_dates e = Inr end" "to_dt end = Some b" by simp_all
  have "range_filter to_dt data None (Some e)
     = Inr (filter (\<lambda>r. Dato r \<le> b) data, Stamp (Dato (hd data)), Str end)"
    using ne e by (rule range_filter_None_Some)
  moreover from h have "filter (\<lambda>r. Dato r \<le> b) data = []"
    by (simp add: sorted_filter_le_Nil)
  ultimately have rf: "range_filter to_dt data None (Some e)
     = Inr ([], Stamp (Dato (hd data)), Str end)" by simp
  from h have "findall_first (str (Str end)) = Inr me" by simp
  from plots_ok [OF assms rf findall_first_Stamp this]
  show "(\<exists>bar line both.
           plot_reported_cases fs to_dt county None (Some e) = Inr bar
           \<and> plot_cumulative_cases fs to_dt county None (Some e) = Inr line
           \<and> plot_both fs to_dt county None (Some e) = Inr both
           \<and> chart_data bar = [] \<and> chart_data line = []
           \<and> map chart_data (layer both) = [[], []]
           \<and> title bar = ''Oversikt over antall rapporterte smitttede i '' @ display_name county
                 @ '' fra '' @ isoformat (Dato (hd data)) @ '' til '' @ me
           \<and> title line = ''Oversikt over komulativt antall smitttede i '' @ display_name county
                 @ '', fra '' @ isoformat (Dato (hd data)) @ '' til '' @ me
           \<and> map title (layer both) = [title bar, title line]
           \<and> layer_title both
               = ''Oversikt over komulativt antall smitttede og antall rapporterte smitttede i ''
                 @ display_name county)"
    by (elim exE conjE) (intro exI conjI, assumption+)
next
  assume "data = []"
  with assms have g: "get_data fs county = Inr []" by simp
  note rf = range_filter_Nil_None [of to_dt bound]
  show "plot_reported_cases fs to_dt county None bound = Inl IndexError"
    using g rf by (rule plot_reported_cases_error)
  then show "plot_both fs to_dt county None bound = Inl IndexError"
    by (rule plot_both_error)
  show "plot_cumulative_cases fs to_dt county None bound = Inl IndexError"
    using g rf by (rule plot_cumulative_cases_error)
next
  assume h: "fix_dates s = Inr start
          \<and> (data = [] \<or> to_dt start = Some a \<and> filter (\<lambda>r. a \<le> Dato r) data = [])"
  have rf: "range_filter to_dt data (Some s) None = Inl IndexError"
  proof (cases "data = []")
    case True
    with h range_filter_Nil_Some_None [of s start to_dt] show ?thesis by simp
  next
    case False
    with h have s: "fix_dates s = Inr start" "to_dt start = Some a"
      and empty: "filter (\<lambda>r. a \<le> Dato r) data = []" by simp_all
    have "range_filter to_dt data (Some s) None
       = (if filter (\<lambda>r. a \<le> Dato r) data = [] then Inl IndexError
          else Inr (filter (\<lambda>r. a \<le> Dato r) data, Str start,
                    Stamp (Dato (last (filter (\<lambda>r. a \<le> Dato r) data)))))"
      using s by (rule range_filter_Some_None)
    with empty show ?thesis by simp
  qed
  show "plot_reported_cases fs to_dt county (Some s) None = Inl IndexError"
    using assms rf by (rule plot_reported_cases_error)
  then show "plot_both fs to_dt county (Some s) None = Inl IndexError"
    by (rule plot_both_error)
  show "plot_cumulative_cases fs to_dt county (Some s) None = Inl IndexError"
    using assms rf by (rule plot_cumulative_cases_error)
qed

theorem empty_slice_chart_witness:
  "get_data oslo_files ''Oslo'' = Inr three_days
   \<and> fix_dates ''01/01/2021'' = Inr ''2021-01-01''
   \<and> iso_to_datetime ''2021-01-01'' = Some (2021, 1, 1)
   \<and> findall_first ''2021-01-01'' = Inr ''2021-01-01''
   \<and> fix_dates ''13/03/2020'' = Inr ''2020-03-13''
   \<and> iso_to_datetime ''2020-03-13'' = Some (2020, 3, 13)
   \<and> findall_first ''2020-03-13'' = Inr ''2020-03-13''
   \<and> (2020, 3, 13) < ((2021, 1, 1) :: timestamp)
   \<and> (\<exists>bar. plot_reported_cases oslo_files iso_to_datetime ''Oslo''
                (Some ''01/01/2021'') (Some ''13/03/2020'') = Inr bar
            \<and> chart_data bar = []
            \<and> title bar = ''Oversikt over antall rapporterte smitttede i Oslo fra 2021-01-01 til 2020-03-13'')
   \<and> three_days \<noteq> [] \<and> sorted (map Dato three_days)
   \<and> fix_dates ''2020-01-01'' = Inr ''2020-01-01''
   \<and> iso_to_datetime ''2020-01-01'' = Some (2020, 1, 1)
   \<and> findall_first ''2020-01-01'' = Inr ''2020-01-01''
   \<and> (2020, 1, 1) < Dato (hd three_days)
   \<and> (\<exists>bar. plot_reported_cases oslo_files iso_to_datetime ''Oslo''
                None (Some ''2020-01-01'') = Inr bar
            \<and> chart_data bar = []
            \<and> title bar = ''Oversikt over antall rapporterte smitttede i Oslo fra 2020-03-12 til 2020-01-01'')
   \<and> get_data empty_files ''Oslo'' = Inr []
   \<and> plot_both empty_files iso_to_datetime ''Oslo'' None (Some ''13/03/2020'') = Inl IndexError
   \<and> plot_both empty_files iso_to_datetime ''Oslo'' (Some ''01/01/2021'') None = Inl IndexError
   \<and> filter (\<lambda>r. (2021, 1, 1) \<le> Dato r) three_days = []
   \<and> plot_both oslo_files iso_to_datetime ''Oslo'' (Some ''01/01/2021'') None = Inl IndexError"
proof -
  have less1: "(2020, 3, 13) < ((2021, 1, 1) :: timestamp)" by simp
  have less2: "(2020, 1, 1) < Dato (hd three_days)" by (simp add: three_days_def)
  have none: "filter (\<lambda>r. (2021, 1, 1) \<le> Dato r) three_days = []"
    by (simp add: three_days_def)
  note inst1 = empty_slice_chart [where to_dt = iso_to_datetime, OF get_data_Oslo,
      of "''01/01/2021''" "''2021-01-01''" "(2021, 1, 1)" "''2021-01-01''"
         "''13/03/2020''" "''2020-03-13''" "(2020, 3, 13)" "''2020-03-13''"]
  note inst2 = empty_slice_chart [where to_dt = iso_to_datetime, OF get_data_Oslo,
      of "''01/01/2021''" "''2021-01-01''" "(2021, 1, 1)" "''2021-01-01''"
         "''2020-01-01''" "''2020-01-01''" "(2020, 1, 1)" "''2020-01-01''"]
  note inst3 = empty_slice_chart [where to_dt = iso_to_datetime, OF get_data_Oslo_empty,
      of "''01/01/2021''" "''2021-01-01''" "(2021, 1, 1)" "''2021-01-01''"
         "''13/03/2020''" "''2020-03-13''" "(2020, 3, 13)" "''2020-03-13''"
         "Some ''13/03/2020''"]
  from inst1 fix_dates_2021 iso_to_datetime_2021 findall_first_2021
    fix_dates_13 iso_to_datetime_13 findall_first_13 less1
  have a: "\<exists>bar. plot_reported_cases oslo_files iso_to_datetime ''Oslo''
                (Some ''01/01/2021'') (Some ''13/03/2020'') = Inr bar
            \<and> chart_data bar = []
            \<and> title bar = ''Oversikt over antall rapporterte smitttede i Oslo fra 2021-01-01 til 2020-03-13''"
    by (auto simp: display_name_def)
  from inst2 three_days_not_Nil three_days_sorted fix_dates_jan iso_to_datetime_jan
    findall_first_jan less2
  have b: "\<exists>bar. plot_reported_cases oslo_files iso_to_datetime ''Oslo''
                None (Some ''2020-01-01'') = Inr bar
            \<and> chart_data bar = []
            \<and> title bar = ''Oversikt over antall rapporterte smitttede i Oslo fra 2020-03-12 til 2020-01-01''"
    by (auto simp: display_name_def isoformat_first)
  from inst3 have c: "plot_both empty_files iso_to_datetime ''Oslo'' None (Some ''13/03/2020'')
      = Inl IndexError"
    by simp
  from inst3 fix_dates_2021
  have d: "plot_both empty_files iso_to_datetime ''Oslo'' (Some ''01/01/2021'') None
      = Inl IndexError"
    by simp
  from inst1 fix_dates_2021 iso_to_datetime_2021 none
  have e: "plot_both oslo_files iso_to_datetime ''Oslo'' (Some ''01/01/2021'') None
      = Inl IndexError"
    by simp
  from get_data_Oslo fix_dates_13 iso_to_datetime_13 findall_first_13 fix_dates_2021
    iso_to_datetime_2021 findall_first_2021 less1 a fix_dates_jan iso_to_datetime_jan
    findall_first_jan three_days_not_Nil three_days_sorted less2 b get_data_Oslo_empty c d
    none e
  show ?thesis by (simp only: simp_thms)
qed

section \<open>The aggregate region\<close>

lemma not_sublist_char: "c \<in> set xs \<Longrightarrow> c \<notin> set ys \<Longrightarrow> \<not> sublist xs ys"
  using set_mono_sublist by fastforce

lemma sublist_after_prefix:
  assumes "sublist (x # xs) (p @ ys)" "x \<notin> set p"
  shows "sublist (x # xs) ys"
  using assms
proof (induction p)
  case Nil
  then show ?case by simp
next
  case (Cons a p)
  from Cons.prems(2) have "a \<noteq> x" "x \<notin> set p" by auto
  with Cons.prems(1) have "sublist (x # xs) (p @ ys)"
    by (simp add: sublist_Cons_right)
  with Cons.IH \<open>x \<notin> set p\<close> show ?case by simp
qed

text \<open>
  C6, as the specification states it, fails in its last clause: the display name is not
  threaded through from the loading of the region. Each builder derives it from the
  identifier it is called with, by comparing it with \<^verbatim>\<open>allcounties\<close>: the two
  identifiers \<^verbatim>\<open>allcounties\<close> and \<^verbatim>\<open>AllCounties\<close> load the same aggregate dataset,
  and the titles name \<^verbatim>\<open>Norge\<close> for the first and \<^verbatim>\<open>AllCounties\<close> for the second.
\<close>

theorem display_name_rederived:
  "get_data norway_files ''allcounties'' = Inr three_days
   \<and> get_data norway_files ''AllCounties'' = Inr three_days
   \<and> map_sum id title (plot_reported_cases norway_files iso_to_datetime ''allcounties'' None None)
       = Inr ''Oversikt over antall rapporterte smitttede i Norge fra 2020-03-12 til 2020-03-14''
   \<and> map_sum id title (plot_reported_cases norway_files iso_to_datetime ''AllCounties'' None None)
       = Inr ''Oversikt over antall rapporterte smitttede i AllCounties fra 2020-03-12 til 2020-03-14''
   \<and> map_sum id layer_title (plot_both norway_files iso_to_datetime ''allcounties'' None None)
       = Inr ''Oversikt over komulativt antall smitttede og antall rapporterte smitttede i Norge''
   \<and> map_sum id layer_title (plot_both norway_files iso_to_datetime ''AllCounties'' None None)
       = Inr ''Oversikt over komulativt antall smitttede og antall rapporterte smitttede i AllCounties''"
proof -
  have g: "get_data norway_files ''allcounties'' = Inr three_days"
    using norway_file by (rule get_data_allcounties)
  note rf = range_filter_None_None [OF three_days_not_Nil, of iso_to_datetime]
  note r1 = plot_reported_cases_ok [OF g rf findall_first_Stamp findall_first_Stamp]
  note c1 = plot_cumulative_cases_ok [OF g rf findall_first_Stamp findall_first_Stamp]
  note b1 = plot_both_ok [OF r1 c1]
  note r2 = plot_reported_cases_ok [OF get_data_AllCounties rf findall_first_Stamp
      findall_first_Stamp]
  note c2 = plot_cumulative_cases_ok [OF get_data_AllCounties rf findall_first_Stamp
      findall_first_Stamp]
  note b2 = plot_both_ok [OF r2 c2]
  show ?thesis
    unfolding g get_data_AllCounties r1 r2 b1 b2
    by (simp add: display_name_def isoformat_first isoformat_last)
qed

lemma title_reported:
  assumes "plot_reported_cases fs to_dt county start end = Inr bar"
  shows "\<exists>rest. title bar = ''Oversikt over antall rapporterte smitttede i ''
            @ (if county = ''allcounties'' then ''Norge'' else county) @ rest"
proof -
  from plot_reported_cases_Inr [OF assms] obtain ms me where
    "title bar = ''Oversikt over antall rapporterte smitttede i '' @ display_name county
                   @ ('' fra '' @ ms @ '' til '' @ me)"
    by auto
  then show ?thesis
    unfolding display_name_def by (intro exI [of _ "'' fra '' @ ms @ '' til '' @ me"]) simp
qed

lemma title_cumulative:
  assumes "plot_cumulative_cases fs to_dt county start end = Inr line"
  shows "\<exists>rest. title line = ''Oversikt over komulativt antall smitttede i ''
            @ (if county = ''allcounties'' then ''Norge'' else county) @ rest"
proof -
  from plot_cumulative_cases_Inr [OF assms] obtain ms me where
    "title line = ''Oversikt over komulativt antall smitttede i '' @ display_name county
                   @ ('', fra '' @ ms @ '' til '' @ me)"
    by auto
  then show ?thesis
    unfolding display_name_def by (intro exI [of _ "'', fra '' @ ms @ '' til '' @ me"]) simp
qed

lemma title_both:
  assumes "plot_both fs to_dt county start end = Inr both"
  shows "layer_title both
      = ''Oversikt over komulativt antall smitttede og antall rapporterte smitttede i ''
        @ (if county = ''allcounties'' then ''Norge'' else county)"
  using plot_both_Inr [OF assms] unfolding display_name_def by auto

text \<open>
  C6, amended. For the region \<^verbatim>\<open>allcounties\<close> without bounds, on an aggregate file that
  has rows, the three builders succeed on the whole dataset, the resolved bounds in the
  titles are the dates of its first and last records, and every title contains
  \<^verbatim>\<open>Norge\<close> and does not contain \<^verbatim>\<open>allcounties\<close>. The name is derived from the
  identifier in each builder: for every request, the name in a title that is built is
  \<^verbatim>\<open>Norge\<close> when the identifier is exactly \<^verbatim>\<open>allcounties\<close> and the identifier itself
  otherwise.
\<close>

theorem allcounties_titles:
  assumes "fs (file_path ''allcounties'') = Some (Table data)" "data \<noteq> []"
  shows "(\<exists>bar line both.
      plot_reported_cases fs to_dt ''allcounties'' None None = Inr bar
    \<and> plot_cumulative_cases fs to_dt ''allcounties'' None None = Inr line
    \<and> plot_both fs to_dt ''allcounties'' None None = Inr both
    \<and> map title (layer both) = [title bar, title line]
    \<and> map chart_data (layer both) = [data, data]
    \<and> chart_data bar = data \<and> chart_data line = data
    \<and> title bar = ''Oversikt over antall rapporterte smitttede i Norge fra ''
          @ isoformat (Dato (hd data)) @ '' til '' @ isoformat (Dato (last data))
    \<and> title line = ''Oversikt over komulativt antall smitttede i Norge, fra ''
          @ isoformat (Dato (hd data)) @ '' til '' @ isoformat (Dato (last data))
    \<and> layer_title both
        = ''Oversikt over komulativt antall smitttede og antall rapporterte smitttede i Norge''
    \<and> (\<forall>t \<in> {title bar, title line, layer_title both}.
          sublist ''Norge'' t \<and> \<not> sublist ''allcounties'' t))
    \<and> (\<forall>bar. plot_reported_cases fs to_dt county start end = Inr bar \<longrightarrow>
          (\<exists>rest. title bar = ''Oversikt over antall rapporterte smitttede i ''
             @ (if county = ''allcounties'' then ''Norge'' else county) @ rest))
    \<and> (\<forall>line. plot_cumulative_cases fs to_dt county start end = Inr line \<longrightarrow>
          (\<exists>rest. title line = ''Oversikt over komulativt antall smitttede i ''
             @ (if county = ''allcounties'' then ''Norge'' else county) @ rest))
    \<and> (\<forall>both. plot_both fs to_dt county start end = Inr both \<longrightarrow>
          layer_title both
            = ''Oversikt over komulativt antall smitttede og antall rapporterte smitttede i ''
              @ (if county = ''allcounties'' then ''Norge'' else county))"
proof -
  let ?first = "isoformat (Dato (hd data))" and ?last = "isoformat (Dato (last data))"
  let ?t1 = "''Oversikt over antall rapporterte smitttede i Norge fra '' @ ?first @ '' til '' @ ?last"
  let ?t2 = "''Oversikt over komulativt antall smitttede i Norge, fra '' @ ?first @ '' til '' @ ?last"
  let ?t3 = "''Oversikt over komulativt antall smitttede og antall rapporterte smitttede i Norge''"
  have g: "get_data fs ''allcounties'' = Inr data"
    using assms(1) by (rule get_data_allcounties)
  note rf = range_filter_None_None [OF assms(2), of to_dt]
  note r = plot_reported_cases_ok [OF g rf findall_first_Stamp findall_first_Stamp]
  note l = plot_cumulative_cases_ok [OF g rf findall_first_Stamp findall_first_Stamp]
  note b = plot_both_ok [OF r l]
  obtain bar where bar: "plot_reported_cases fs to_dt ''allcounties'' None None = Inr bar"
    "title bar = ?t1" "chart_data bar = data"
    using r by (simp add: display_name_def)
  obtain line where line: "plot_cumulative_cases fs to_dt ''allcounties'' None None = Inr line"
    "title line = ?t2" "chart_data line = data"
    using l by (simp add: display_name_def)
  obtain both where both: "plot_both fs to_dt ''allcounties'' None None = Inr both"
    "layer_title both = ?t3" "map title (layer both) = [?t1, ?t2]"
    "map chart_data (layer both) = [data, data]"
    using b by (simp add: display_name_def)
  from both(3) bar(2) line(2) have layers: "map title (layer both) = [title bar, title line]"
    by (simp only:)
  note p = bar(1) line(1) both(1) layers both(4) bar(3) line(3)
  note t = bar(2) line(2) both(2)
  have c: "CHR ''c'' \<notin> set ?first" "CHR ''c'' \<notin> set ?last"
    by (rule isoformat_no_letter; simp add: digit_def)+
  have "sublist ''Norge'' (''Oversikt over antall rapporterte smitttede i ''
          @ ''Norge'' @ ('' fra '' @ ?first @ '' til '' @ ?last))"
    by (rule sublist_appendI)
  then have n1: "sublist ''Norge'' ?t1" by simp
  have "sublist ''Norge'' (''Oversikt over komulativt antall smitttede i ''
          @ ''Norge'' @ ('', fra '' @ ?first @ '' til '' @ ?last))"
    by (rule sublist_appendI)
  then have n2: "sublist ''Norge'' ?t2" by simp
  have "sublist ''Norge''
     (''Oversikt over komulativt antall smitttede og antall rapporterte smitttede i '' @ ''Norge'')"
    by (rule sublist_append_leftI)
  then have n3: "sublist ''Norge'' ?t3" by simp
  have a1: "\<not> sublist ''allcounties'' ?t1"
    by (rule not_sublist_char [of "CHR ''c''"]) (use c in simp_all)
  have a2: "\<not> sublist ''allcounties'' ?t2"
    by (rule not_sublist_char [of "CHR ''c''"]) (use c in simp_all)
  have a3: "\<not> sublist ''allcounties'' ?t3"
    by (rule not_sublist_char [of "CHR ''c''"]) simp_all
  from n1 n2 n3 a1 a2 a3 t
  have "\<forall>t \<in> {title bar, title line, layer_title both}.
          sublist ''Norge'' t \<and> \<not> sublist ''allcounties'' t"
    by simp
  with p t have first: "\<exists>bar line both.
      plot_reported_cases fs to_dt ''allcounties'' None None = Inr bar
    \<and> plot_cumulative_cases fs to_dt ''allcounties'' None None = Inr line
    \<and> plot_both fs to_dt ''allcounties'' None None = Inr both
    \<and> map title (layer both) = [title bar, title line]
    \<and> map chart_data (layer both) = [data, data]
    \<and> chart_data bar = data \<and> chart_data line = data
    \<and> title bar = ?t1 \<and> title line = ?t2 \<and> layer_title both = ?t3
    \<and> (\<forall>t \<in> {title bar, title line, layer_title both}.
          sublist ''Norge'' t \<and> \<not> sublist ''allcounties'' t)"
    by (intro exI [of _ bar] exI [of _ line] exI [of _ both]) (simp only: simp_thms)
  have second: "\<forall>bar. plot_reported_cases fs to_dt county start end = Inr bar \<longrightarrow>
          (\<exists>rest. title bar = ''Oversikt over antall rapporterte smitttede i ''
             @ (if county = ''allcounties'' then ''Norge'' else county) @ rest)"
    by (intro allI impI) (rule title_reported)
  have third: "\<forall>line. plot_cumulative_cases fs to_dt county start end = Inr line \<longrightarrow>
          (\<exists>rest. title line = ''Oversikt over komulativt antall smitttede i ''
             @ (if county = ''allcounties'' then ''Norge'' else county) @ rest)"
    by (intro allI impI) (rule title_cumulative)
  have fourth: "\<forall>both. plot_both fs to_dt county start end = Inr both \<longrightarrow>
          layer_title both
            = ''Oversikt over komulativt antall smitttede og antall rapporterte smitttede i ''
              @ (if county = ''allcounties'' then ''Norge'' else county)"
    by (intro allI impI) (rule title_both)
  show ?thesis
    by (rule conjI [OF first conjI [OF second conjI [OF third fourth]]])
qed

theorem allcounties_titles_witness:
  "norway_files (file_path ''allcounties'') = Some (Table three_days) \<and> three_days \<noteq> []
   \<and> (\<exists>bar line both.
        plot_reported_cases norway_files iso_to_datetime ''allcounties'' None None = Inr bar
      \<and> plot_cumulative_cases norway_files iso_to_datetime ''allcounties'' None None = Inr line
      \<and> plot_both norway_files iso_to_datetime ''allcounties'' None None = Inr both
      \<and> title bar
          = ''Oversikt over antall rapporterte smitttede i Norge fra 2020-03-12 til 2020-03-14''
      \<and> title line
          = ''Oversikt over komulativt antall smitttede i Norge, fra 2020-03-12 til 2020-03-14''
      \<and> layer_title both
          = ''Oversikt over komulativt antall smitttede og antall rapporterte smitttede i Norge'')
   \<and> (\<exists>both. plot_both norway_files iso_to_datetime ''AllCounties'' None None = Inr both
        \<and> layer_title both
          = ''Oversikt over komulativt antall smitttede og antall rapporterte smitttede i AllCounties'')"
proof -
  note inst = allcounties_titles [where to_dt = iso_to_datetime and fs = norway_files,
      OF norway_file three_days_not_Nil, of "''AllCounties''" None None]
  from inst
  have a: "\<exists>bar line both.
        plot_reported_cases norway_files iso_to_datetime ''allcounties'' None None = Inr bar
      \<and> plot_cumulative_cases norway_files iso_to_datetime ''allcounties'' None None = Inr line
      \<and> plot_both norway_files iso_to_datetime ''allcounties'' None None = Inr both
      \<and> title bar
          = ''Oversikt over antall rapporterte smitttede i Norge fra 2020-03-12 til 2020-03-14''
      \<and> title line
          = ''Oversikt over komulativt antall smitttede i Norge, fra 2020-03-12 til 2020-03-14''
      \<and> layer_title both
          = ''Oversikt over komulativt antall smitttede og antall rapporterte smitttede i Norge''"
    unfolding isoformat_first isoformat_last
    by (elim exE conjE) (intro exI conjI, simp_all)
  from plots_ok [OF get_data_AllCounties range_filter_None_None [OF three_days_not_Nil]
      findall_first_Stamp findall_first_Stamp, of iso_to_datetime]
  obtain both where
    b: "plot_both norway_files iso_to_datetime ''AllCounties'' None None = Inr both"
    by auto
  from inst b have "layer_title both
          = ''Oversikt over komulativt antall smitttede og antall rapporterte smitttede i AllCounties''"
    by simp
  with b have c: "\<exists>both. plot_both norway_files iso_to_datetime ''AllCounties'' None None = Inr both
        \<and> layer_title both
          = ''Oversikt over komulativt antall smitttede og antall rapporterte smitttede i AllCounties''"
    by (intro exI [of _ both]) simp
  from norway_file three_days_not_Nil a c show ?thesis by (simp only: simp_thms)
qed

lemma lower_g: "lower_char (CHR ''g'') = CHR ''g''" "lower_latin1 (CHR ''g'') = CHR ''g''"
  by (simp_all add: lower_char_def lower_latin1_def latin1_upper_def latin1_lower_def)

lemma lower_keeps_g: "CHR ''g'' \<in> set s \<Longrightarrow> CHR ''g'' \<in> set (lower s)"
proof (induction s rule: lower.induct)
  case 1
  then show ?case by simp
next
  case (2 c)
  then have "c = CHR ''g''" by simp
  with lower_g show ?case by simp
next
  case (3 c d cs)
  note g = lower_g
  show ?case
  proof (cases "c = CHR 0xC3")
    case True
    with 3 g show ?thesis by auto
  next
    case False
    with 3 g show ?thesis by auto
  qed
qed

lemma casing_no_g:
  assumes "lower county = ''allcounties''"
  shows "CHR ''g'' \<notin> set county"
proof
  assume "CHR ''g'' \<in> set county"
  then have "CHR ''g'' \<in> set (lower county)"
    by (rule lower_keeps_g)
  with assms show False by simp
qed

text \<open>
  C10. For an identifier that is another casing of \<^verbatim>\<open>allcounties\<close>, the aggregate file
  is still the one that is read, with the same data or the same error as for the sentinel
  itself, but every title that is built contains the identifier as the caller wrote it and
  does not contain \<^verbatim>\<open>Norge\<close>.
\<close>

theorem other_casing_titles:
  assumes "lower county = ''allcounties''" "county \<noteq> ''allcounties''"
  shows "file_path county = file_path ''allcounties''
    \<and> get_data fs county = get_data fs ''allcounties''
    \<and> map_sum id chart_data (plot_reported_cases fs to_dt county start end)
        = map_sum id chart_data (plot_reported_cases fs to_dt ''allcounties'' start end)
    \<and> map_sum id chart_data (plot_cumulative_cases fs to_dt county start end)
        = map_sum id chart_data (plot_cumulative_cases fs to_dt ''allcounties'' start end)
    \<and> (\<forall>bar. plot_reported_cases fs to_dt county start end = Inr bar \<longrightarrow>
          sublist county (title bar) \<and> \<not> sublist ''Norge'' (title bar))
    \<and> (\<forall>line. plot_cumulative_cases fs to_dt county start end = Inr line \<longrightarrow>
          sublist county (title line) \<and> \<not> sublist ''Norge'' (title line))
    \<and> (\<forall>both. plot_both fs to_dt county start end = Inr both \<longrightarrow>
          sublist county (layer_title both) \<and> \<not> sublist ''Norge'' (layer_title both))"
proof -
  from assms(1) have low: "lower county = lower ''allcounties''"
    by (simp only: lower_allcounties)
  then have fp: "file_path county = file_path ''allcounties''"
    by (simp only: file_path_def)
  note gd = get_data_lower_eq [OF low, of fs]
  note d1 = plot_reported_cases_data_eq [OF low, of fs to_dt start "end"]
  note d2 = plot_cumulative_cases_data_eq [OF low, of fs to_dt start "end"]
  from assms(2) have dn: "display_name county = county"
    by (simp add: display_name_def)
  note g = casing_no_g [OF assms(1)]
  have bar: "sublist county (title bar) \<and> \<not> sublist ''Norge'' (title bar)"
    if "plot_reported_cases fs to_dt county start end = Inr bar" for bar
  proof -
    from plot_reported_cases_Inr [OF that] obtain s e ms me where
      m: "findall_first (str s) = Inr ms" "findall_first (str e) = Inr me" and
      t: "title bar = ''Oversikt over antall rapporterte smitttede i '' @ county
                        @ ('' fra '' @ ms @ '' til '' @ me)"
      unfolding dn by auto
    have "CHR ''g'' \<notin> set ms" "CHR ''g'' \<notin> set me"
      by (rule findall_first_no_letter [OF m(1)] findall_first_no_letter [OF m(2)];
          simp add: digit_def)+
    with g have "CHR ''g'' \<notin> set (title bar)"
      unfolding t by simp
    then have "\<not> sublist ''Norge'' (title bar)"
      by (intro not_sublist_char [of "CHR ''g''"]) simp_all
    moreover have "sublist county (title bar)"
      unfolding t by (rule sublist_appendI)
    ultimately show ?thesis by simp
  qed
  have line: "sublist county (title line) \<and> \<not> sublist ''Norge'' (title line)"
    if "plot_cumulative_cases fs to_dt county start end = Inr line" for line
  proof -
    from plot_cumulative_cases_Inr [OF that] obtain s e ms me where
      m: "findall_first (str s) = Inr ms" "findall_first (str e) = Inr me" and
      t: "title line = ''Oversikt over komulativt antall smitttede i '' @ county
                        @ ('', fra '' @ ms @ '' til '' @ me)"
      unfolding dn by auto
    have "CHR ''g'' \<notin> set ms" "CHR ''g'' \<notin> set me"
      by (rule findall_first_no_letter [OF m(1)] findall_first_no_letter [OF m(2)];
          simp add: digit_def)+
    with g have "CHR ''g'' \<notin> set (title line)"
      unfolding t by simp
    then have "\<not> sublist ''Norge'' (title line)"
      by (intro not_sublist_char [of "CHR ''g''"]) simp_all
    moreover have "sublist county (title line)"
      unfolding t by (rule sublist_appendI)
    ultimately show ?thesis by simp
  qed
  have both: "sublist county (layer_title both) \<and> \<not> sublist ''Norge'' (layer_title both)"
    if "plot_both fs to_dt county start end = Inr both" for both
  proof -
    let ?p = "''Oversikt over komulativt antall smitttede og antall rapporterte smitttede i ''"
    from plot_both_Inr [OF that] have t: "layer_title both = ?p @ county"
      unfolding dn by auto
    have "\<not> sublist ''Norge'' (?p @ county)"
    proof
      assume "sublist ''Norge'' (?p @ county)"
      then have "sublist ''Norge'' county"
        by (rule sublist_after_prefix) simp
      then have "set ''Norge'' \<subseteq> set county"
        by (rule set_mono_sublist)
      with g show False by simp
    qed
    moreover have "sublist county (?p @ county)"
      by (rule sublist_append_leftI)
    ultimately show ?thesis unfolding t by simp
  qed
  from fp gd d1 d2 bar line both show ?thesis by blast
qed

theorem other_casing_titles_witness:
  "lower ''AllCounties'' = ''allcounties'' \<and> ''AllCounties'' \<noteq> ''allcounties''
   \<and> file_path ''AllCounties'' = file_path ''allcounties''
   \<and> (\<exists>bar line both.
        plot_reported_cases norway_files iso_to_datetime ''AllCounties'' None None = Inr bar
      \<and> plot_cumulative_cases norway_files iso_to_datetime ''AllCounties'' None None = Inr line
      \<and> plot_both norway_files iso_to_datetime ''AllCounties'' None None = Inr both
      \<and> title bar
          = ''Oversikt over antall rapporterte smitttede i AllCounties fra 2020-03-12 til 2020-03-14''
      \<and> sublist ''AllCounties'' (title bar) \<and> \<not> sublist ''Norge'' (title bar)
      \<and> sublist ''AllCounties'' (title line) \<and> \<not> sublist ''Norge'' (title line)
      \<and> sublist ''AllCounties'' (layer_title both) \<and> \<not> sublist ''Norge'' (layer_title both))"
proof -
  have ne: "''AllCounties'' \<noteq> ''allcounties''" by simp
  note inst = other_casing_titles [OF lower_AllCounties ne, of norway_files iso_to_datetime
      None None]
  from plots_ok [OF get_data_AllCounties range_filter_None_None [OF three_days_not_Nil]
      findall_first_Stamp findall_first_Stamp, of iso_to_datetime]
  obtain bar line both where
    p: "plot_reported_cases norway_files iso_to_datetime ''AllCounties'' None None = Inr bar"
       "plot_cumulative_cases norway_files iso_to_datetime ''AllCounties'' None None = Inr line"
       "plot_both norway_files iso_to_datetime ''AllCounties'' None None = Inr both"
    and t: "title bar
          = ''Oversikt over antall rapporterte smitttede i AllCounties fra 2020-03-12 til 2020-03-14''"
    unfolding isoformat_first isoformat_last by (auto simp: display_name_def)
  from inst p have
    "sublist ''AllCounties'' (title bar) \<and> \<not> sublist ''Norge'' (title bar)"
    "sublist ''AllCounties'' (title line) \<and> \<not> sublist ''Norge'' (title line)"
    "sublist ''AllCounties'' (layer_title both) \<and> \<not> sublist ''Norge'' (layer_title both)"
    by (simp_all only: simp_thms)
  with p t have "\<exists>bar line both.
        plot_reported_cases norway_files iso_to_datetime ''AllCounties'' None None = Inr bar
      \<and> plot_cumulative_cases norway_files iso_to_datetime ''AllCounties'' None None = Inr line
      \<and> plot_both norway_files iso_to_datetime ''AllCounties'' None None = Inr both
      \<and> title bar
          = ''Oversikt over antall rapporterte smitttede i AllCounties fra 2020-03-12 til 2020-03-14''
      \<and> sublist ''AllCounties'' (title bar) \<and> \<not> sublist ''Norge'' (title bar)
      \<and> sublist ''AllCounties'' (title line) \<and> \<not> sublist ''Norge'' (title line)
      \<and> sublist ''AllCounties'' (layer_title both) \<and> \<not> sublist ''Norge'' (layer_title both)"
    by (intro exI [of _ bar] exI [of _ line] exI [of _ both]) (simp only: simp_thms)
  with inst lower_AllCounties ne show ?thesis by (simp only: simp_thms)
qed

section \<open>The combined chart\<close>

text \<open>
  C9. Every combined chart that \<^verbatim>\<open>plot_both\<close> returns layers the bar chart of the new
  cases and the line chart of the cumulative cases, and its scale resolution for the
  y axis is \<^verbatim>\<open>independent\<close>.
\<close>

theorem plot_both_independent_scales:
  assumes "plot_both fs to_dt county start end = Inr c"
  shows "resolve_scale_y c = Some ''independent''
    \<and> (\<exists>reported_bar cumulative_line. layer c = [reported_bar, cumulative_line]
          \<and> chart_mark reported_bar = Bar \<and> encode_y reported_bar = ''Nye tilfeller''
          \<and> chart_mark cumulative_line = Line ''green''
          \<and> encode_y cumulative_line = ''Kumulativt antall'')"
proof -
  from plot_both_Inr [OF assms] obtain b l where
    b: "plot_reported_cases fs to_dt county start end = Inr b" and
    l: "plot_cumulative_cases fs to_dt county start end = Inr l" and
    c: "layer c = [b\<lparr>width := None\<rparr>, l\<lparr>width := None\<rparr>]"
      "resolve_scale_y c = Some ''independent''"
    by auto
  from plot_reported_cases_Inr [OF b] have "chart_mark b = Bar \<and> encode_y b = ''Nye tilfeller''"
    by auto
  moreover from plot_cumulative_cases_Inr [OF l]
  have "chart_mark l = Line ''green'' \<and> encode_y l = ''Kumulativt antall''"
    by auto
  ultimately show ?thesis using c by simp
qed

theorem plot_both_independent_scales_witness:
  "\<exists>c. plot_both oslo_files iso_to_datetime ''Oslo'' (Some ''13/03/2020'') (Some ''2020-03-14'')
          = Inr c
     \<and> resolve_scale_y c = Some ''independent''
     \<and> map encode_y (layer c) = [''Nye tilfeller'', ''Kumulativt antall'']"
proof -
  have rf: "range_filter iso_to_datetime three_days (Some ''13/03/2020'') (Some ''2020-03-14'')
       = Inr (filter (\<lambda>r. (2020, 3, 13) \<le> Dato r \<and> Dato r \<le> (2020, 3, 14)) three_days,
              Str ''2020-03-13'', Str ''2020-03-14'')"
    using fix_dates_13 iso_to_datetime_13 fix_dates_14 iso_to_datetime_14
    by (rule range_filter_explicit)
  have "findall_first (str (Str ''2020-03-13'')) = Inr ''2020-03-13''"
    "findall_first (str (Str ''2020-03-14'')) = Inr ''2020-03-14''"
    using findall_first_13 findall_first_14 by simp_all
  from plots_ok [OF get_data_Oslo rf this]
  obtain c where c: "plot_both oslo_files iso_to_datetime ''Oslo'' (Some ''13/03/2020'')
      (Some ''2020-03-14'') = Inr c"
    by blast
  from plot_both_independent_scales [OF c]
  have "resolve_scale_y c = Some ''independent''
     \<and> map encode_y (layer c) = [''Nye tilfeller'', ''Kumulativt antall'']"
    by auto
  with c show ?thesis by (intro exI [of _ c]) simp
qed

end
